theory Spec2Isabelle
  imports Complex_Main "HOL-Library.AList"
begin

section \<open>Airline survey knowledge graph: loader and query validator\<close>

text \<open>
  This theory embeds the two programs of the repository,
  \<^verbatim>\<open>Milestone_02/create_kg.py\<close> (the graph builder) and
  \<^verbatim>\<open>Milestone_02/validate_queries.py\<close> (the query validator), and proves
  properties of them.

  Conventions of the embedding.
  \<^item> Everything a program does to the outside is written into a \<open>world\<close>: the graph
    held by the store, the sequence of interactions with the driver, and the lines
    printed.
  \<^item> Files are inputs: the configuration file is \<open>None\<close> when it does not exist and
    otherwise the list of its lines; the CSV file is \<open>None\<close> when the path does not
    exist and otherwise the data frame that \<^verbatim>\<open>pd.read_csv\<close> returns.
  \<^item> A Python float is the real number it denotes (finite values only, no infinity and
    no NaN); the floating-point operations of \<^verbatim>\<open>math.isclose\<close> round to the nearest
    double. Python and Cypher integers are unbounded \<open>int\<close>.
  \<^item> The store is assumed to execute every statement successfully; the only Python
    exception that is modelled is the \<^verbatim>\<open>KeyError\<close> of a dictionary lookup.
\<close>

subsection \<open>Printed lines, store statements and the world\<close>

text \<open>Scalar values of query results (validator side).\<close>

datatype pyval = PNone | PBool bool | PInt int | PFloat real | PStr string

datatype py_error = KeyError pyval

text \<open>Cells of a pandas data frame (loader side); \<open>NaN\<close> is a missing value.\<close>

datatype cell = NaN | IntC int | FloatC real | StrC string

text \<open>The record built for each CSV row (\<^verbatim>\<open>row_data\<close>, lines 111-125).\<close>

record row_data =
  origin_station_code :: string
  destination_station_code :: string
  flight_number :: string
  fleet_type_description :: string
  record_locator :: string
  loyalty_program_level :: string
  generation :: string
  feedback_ID :: string
  food_satisfaction_score :: cell
  arrival_delay_minutes :: cell
  actual_flown_miles :: cell
  number_of_legs :: cell
  passenger_class :: string

text \<open>
  The statements the programs send through \<^verbatim>\<open>session.run\<close>: the wipe, the three
  constraints and the index (by name), the import query with its \<^verbatim>\<open>$batch\<close>
  parameter, and the five catalogue queries (by number).
\<close>

datatype stmt =
    ClearAll
  | CreateConstraint string
  | CreateIndex string
  | Import "row_data list"
  | Query nat

datatype event =
    DriverCreate string string string
  | SessionOpen
  | Run stmt
  | SessionClose
  | DriverClose

datatype msg =
    ConfigNotFound string
  | ClearingDatabase
  | DatabaseCleared
  | CreatingConstraints
  | CsvNotFound string
  | Reading string
  | MissingColumns "string list"
  | AvailableColumns "string list"
  | FoundRecords nat
  | Processed nat nat
  | Success
  | ErrorOccurred py_error
  | Validating nat
  | LengthMismatch nat nat
  | Mismatch nat string pyval pyval
  | Pass
  | Fail

subsection \<open>The property graph\<close>

text \<open>
  The graph has the four node labels and four relationship types of the import query.
  A node is identified by the properties its \<^verbatim>\<open>MERGE\<close> pattern names: the station
  code of an Airport, the pair (flight number, fleet type) of a Flight, the record
  locator of a Passenger, the feedback id of a Journey. A relationship is identified by
  its end points. The properties written by \<^verbatim>\<open>SET\<close> are kept in a map from the
  node's key; a Cypher \<^verbatim>\<open>null\<close> (a property that is not set) is \<open>None\<close>.
\<close>

record journey_attrs =
  j_food_satisfaction_score :: "int option"
  j_arrival_delay_minutes :: "int option"
  j_actual_flown_miles :: "int option"
  j_number_of_legs :: "int option"
  j_passenger_class :: string

type_synonym flight_key = "string \<times> string"

record graph =
  airport_nodes :: "string list"
  flight_nodes :: "flight_key list"
  passenger_nodes :: "string list"
  journey_nodes :: "string list"
  passenger_props :: "string \<rightharpoonup> (string \<times> string)"
  journey_props :: "string \<rightharpoonup> journey_attrs"
  departs_from :: "(flight_key \<times> string) list"
  arrives_at :: "(flight_key \<times> string) list"
  took :: "(string \<times> string) list"
  on_flight :: "(string \<times> flight_key) list"

definition empty_graph :: graph where
  "empty_graph =
     \<lparr>airport_nodes = [], flight_nodes = [], passenger_nodes = [], journey_nodes = [],
      passenger_props = Map.empty, journey_props = Map.empty,
      departs_from = [], arrives_at = [], took = [], on_flight = []\<rparr>"

definition node_count :: "graph \<Rightarrow> nat" where
  "node_count g =
     length (airport_nodes g) + length (flight_nodes g) +
     length (passenger_nodes g) + length (journey_nodes g)"

definition relationship_count :: "graph \<Rightarrow> nat" where
  "relationship_count g =
     length (departs_from g) + length (arrives_at g) + length (took g) + length (on_flight g)"

text \<open>
  Two functions of the environment are parameters of the model: Python's \<^verbatim>\<open>str\<close>
  on a number (the digits of an int, the shortest representation of a float) and the
  numeric-literal parser behind Cypher's \<^verbatim>\<open>toInteger\<close> on a string.
\<close>

record ext =
  num_str :: "cell \<Rightarrow> string"
  parse_number :: "string \<Rightarrow> real option"

text \<open>Truncation toward zero.\<close>

definition trunc :: "real \<Rightarrow> int" where
  "trunc x = (if 0 \<le> x then \<lfloor>x\<rfloor> else \<lceil>x\<rceil>)"

text \<open>
  Cypher's \<^verbatim>\<open>toInteger\<close>: an integer is returned as it is, a float is truncated, a
  string is parsed as a number and truncated, or gives \<^verbatim>\<open>null\<close> when it does not
  parse. (A missing value never reaches the query, \<^verbatim>\<open>fillna\<close> having replaced it;
  it is given \<^verbatim>\<open>null\<close> here.)
\<close>

fun toInteger :: "ext \<Rightarrow> cell \<Rightarrow> int option" where
  "toInteger X (IntC i) = Some i"
| "toInteger X (FloatC x) = Some (trunc x)"
| "toInteger X (StrC s) = map_option trunc (parse_number X s)"
| "toInteger X NaN = None"

text \<open>
  The properties that the \<^verbatim>\<open>SET\<close> clauses of the import query write on the
  Passenger (lines 91-92) and on the Journey (lines 95-99) of a row.
\<close>

definition passenger_set :: "row_data \<Rightarrow> string \<times> string" where
  "passenger_set row = (loyalty_program_level row, generation row)"

definition journey_set :: "ext \<Rightarrow> row_data \<Rightarrow> journey_attrs" where
  "journey_set X row =
     \<lparr>j_food_satisfaction_score = toInteger X (food_satisfaction_score row),
      j_arrival_delay_minutes = toInteger X (arrival_delay_minutes row),
      j_actual_flown_miles = toInteger X (actual_flown_miles row),
      j_number_of_legs = toInteger X (number_of_legs row),
      j_passenger_class = passenger_class row\<rparr>"

text \<open>
  The import query for one row of \<^verbatim>\<open>$batch\<close> (lines 76-103): each \<^verbatim>\<open>MERGE\<close>
  creates the node or relationship only when none matches (\<open>List.insert\<close>), each
  \<^verbatim>\<open>SET\<close> overwrites.
\<close>

definition import_row :: "ext \<Rightarrow> row_data \<Rightarrow> graph \<Rightarrow> graph" where
  "import_row X row g =
     (let origin = origin_station_code row;
          dest = destination_station_code row;
          f = (flight_number row, fleet_type_description row);
          p = record_locator row;
          j = feedback_ID row
      in g\<lparr>airport_nodes := List.insert dest (List.insert origin (airport_nodes g)),
            flight_nodes := List.insert f (flight_nodes g),
            departs_from := List.insert (f, origin) (departs_from g),
            arrives_at := List.insert (f, dest) (arrives_at g),
            passenger_nodes := List.insert p (passenger_nodes g),
            passenger_props := (passenger_props g)(p \<mapsto> passenger_set row),
            journey_nodes := List.insert j (journey_nodes g),
            journey_props := (journey_props g)(j \<mapsto> journey_set X row),
            took := List.insert (p, j) (took g),
            on_flight := List.insert (j, f) (on_flight g)\<rparr>)"

text \<open>\<^verbatim>\<open>UNWIND $batch AS row\<close>: the rows of the batch, in order.\<close>

definition import_query :: "ext \<Rightarrow> row_data list \<Rightarrow> graph \<Rightarrow> graph" where
  "import_query X batch g = fold (import_row X) batch g"

text \<open>
  What a statement does to the graph. The wipe \<^verbatim>\<open>MATCH (n) DETACH DELETE n\<close>
  removes every node and relationship; constraints, the index and the read-only
  queries leave nodes and relationships as they are.
\<close>

fun exec_stmt :: "ext \<Rightarrow> stmt \<Rightarrow> graph \<Rightarrow> graph" where
  "exec_stmt X ClearAll g = empty_graph"
| "exec_stmt X (CreateConstraint n) g = g"
| "exec_stmt X (CreateIndex n) g = g"
| "exec_stmt X (Import batch) g = import_query X batch g"
| "exec_stmt X (Query q) g = g"

record world =
  store :: graph
  trace :: "event list"
  out :: "msg list"

definition emit :: "event \<Rightarrow> world \<Rightarrow> world" where
  "emit e w = w\<lparr>trace := trace w @ [e]\<rparr>"

definition print :: "msg \<Rightarrow> world \<Rightarrow> world" where
  "print m w = w\<lparr>out := out w @ [m]\<rparr>"

definition session_run :: "ext \<Rightarrow> stmt \<Rightarrow> world \<Rightarrow> world" where
  "session_run X s w = w\<lparr>store := exec_stmt X s (store w), trace := trace w @ [Run s]\<rparr>"

subsection \<open>Configuration loader (both programs)\<close>

text \<open>
  \<^verbatim>\<open>str.strip()\<close> removes the white space at both ends; these are the ASCII
  characters for which \<^verbatim>\<open>str.isspace\<close> holds. White space outside ASCII (such as
  U+0085 and U+00A0), which \<^verbatim>\<open>strip\<close> removes as well, is not modelled.
\<close>

definition is_space :: "char \<Rightarrow> bool" where
  "is_space c = (c \<in> set [CHR 0x20, CHR 0x09, CHR 0x0A, CHR 0x0B, CHR 0x0C, CHR 0x0D,
                           CHR 0x1C, CHR 0x1D, CHR 0x1E, CHR 0x1F])"

definition strip :: "string \<Rightarrow> string" where
  "strip s = rev (dropWhile is_space (rev (dropWhile is_space s)))"

text \<open>
  \<^verbatim>\<open>s.split('=', 1)\<close> for a string that contains \<^verbatim>\<open>=\<close>: the part before the first
  \<^verbatim>\<open>=\<close> and everything after it.
\<close>

definition split_eq :: "string \<Rightarrow> string \<times> string" where
  "split_eq s = (takeWhile (\<lambda>c. c \<noteq> CHR ''='') s, tl (dropWhile (\<lambda>c. c \<noteq> CHR ''='') s))"

text \<open>The loop body of \<^verbatim>\<open>load_config\<close> (lines 11-14); the dictionary is an association list.\<close>

fun config_lines :: "string list \<Rightarrow> (string \<times> string) list \<Rightarrow> (string \<times> string) list" where
  "config_lines [] config = config"
| "config_lines (line # rest) config =
     (if CHR ''='' \<in> set line
      then (case split_eq (strip line) of
              (key, val) \<Rightarrow> config_lines rest (AList.update key val config))
      else config_lines rest config)"

definition load_config ::
  "string \<Rightarrow> string list option \<Rightarrow> world \<Rightarrow> (string \<times> string) list option \<times> world" where
  "load_config file_path file w =
     (case file of
        Some lines \<Rightarrow> (Some (config_lines lines []), w)
      | None \<Rightarrow> (None, print (ConfigNotFound file_path) w))"

text \<open>\<^verbatim>\<open>config[key]\<close>\<close>

definition config_get :: "(string \<times> string) list \<Rightarrow> string \<Rightarrow> py_error + string" where
  "config_get config key =
     (case map_of config key of None \<Rightarrow> Inl (KeyError (PStr key)) | Some v \<Rightarrow> Inr v)"

subsection \<open>The loader (\<^verbatim>\<open>create_kg.py\<close>)\<close>

text \<open>
  A data frame: the header and the rows; a row gives the cell of each column, with the
  value that \<^verbatim>\<open>df.iterrows()\<close> yields for it. The loader reads a row only at
  columns that the header check has found in \<open>df_columns\<close>.
\<close>

record dataframe =
  df_columns :: "string list"
  df_rows :: "(string \<Rightarrow> cell) list"

definition required_cols :: "string list" where
  "required_cols =
     [''origin_station_code'', ''destination_station_code'', ''flight_number'',
      ''fleet_type_description'', ''record_locator'', ''loyalty_program_level'',
      ''generation'', ''food_satisfaction_score'', ''arrival_delay_minutes'',
      ''actual_flown_miles'', ''number_of_legs'', ''passenger_class'', ''feedback_ID'']"

fun is_str_cell :: "cell \<Rightarrow> bool" where
  "is_str_cell (StrC s) = True"
| "is_str_cell c = False"

text \<open>
  \<^verbatim>\<open>df.fillna(0, inplace=True)\<close>: every missing value becomes zero, the integer 0
  in a column of strings (dtype object) and the float 0.0 in a numeric column.
\<close>

definition fill_value :: "(string \<Rightarrow> cell) list \<Rightarrow> string \<Rightarrow> cell" where
  "fill_value rs col = (if \<exists>r \<in> set rs. is_str_cell (r col) then IntC 0 else FloatC 0)"

definition fillna0 :: "dataframe \<Rightarrow> dataframe" where
  "fillna0 df =
     df\<lparr>df_rows := map (\<lambda>r col. if r col = NaN then fill_value (df_rows df) col else r col)
                        (df_rows df)\<rparr>"

text \<open>Python's \<^verbatim>\<open>str\<close>: a string is returned as it is.\<close>

definition py_str :: "ext \<Rightarrow> cell \<Rightarrow> string" where
  "py_str X c = (case c of StrC s \<Rightarrow> s | _ \<Rightarrow> num_str X c)"

definition make_row_data :: "ext \<Rightarrow> (string \<Rightarrow> cell) \<Rightarrow> row_data" where
  "make_row_data X row =
     \<lparr>origin_station_code = py_str X (row ''origin_station_code''),
      destination_station_code = py_str X (row ''destination_station_code''),
      flight_number = py_str X (row ''flight_number''),
      fleet_type_description = py_str X (row ''fleet_type_description''),
      record_locator = py_str X (row ''record_locator''),
      loyalty_program_level = py_str X (row ''loyalty_program_level''),
      generation = py_str X (row ''generation''),
      feedback_ID = py_str X (row ''feedback_ID''),
      food_satisfaction_score = row ''food_satisfaction_score'',
      arrival_delay_minutes = row ''arrival_delay_minutes'',
      actual_flown_miles = row ''actual_flown_miles'',
      number_of_legs = row ''number_of_legs'',
      passenger_class = py_str X (row ''passenger_class'')\<rparr>"

definition batch_size :: nat where
  "batch_size = 500"

text \<open>
  The loop over \<^verbatim>\<open>df.iterrows()\<close> (lines 109-132), with the loop variables
  \<^verbatim>\<open>index\<close> and \<^verbatim>\<open>batch\<close>; it returns the batch left over at the end.
\<close>

fun batch_loop ::
  "ext \<Rightarrow> nat \<Rightarrow> nat \<Rightarrow> (string \<Rightarrow> cell) list \<Rightarrow> nat \<Rightarrow> row_data list \<Rightarrow> world
     \<Rightarrow> row_data list \<times> world" where
  "batch_loop X bs total_rows [] index batch w = (batch, w)"
| "batch_loop X bs total_rows (row # rest) index batch w =
     (let batch' = batch @ [make_row_data X row]
      in if length batch' \<ge> bs
         then batch_loop X bs total_rows rest (index + 1) []
                (print (Processed (index + 1) total_rows) (session_run X (Import batch') w))
         else batch_loop X bs total_rows rest (index + 1) batch' w)"

text \<open>The part of \<^verbatim>\<open>load_csv_data\<close> inside \<^verbatim>\<open>with self.driver.session()\<close> (lines 108-136).\<close>

definition import_rows :: "ext \<Rightarrow> nat \<Rightarrow> (string \<Rightarrow> cell) list \<Rightarrow> world \<Rightarrow> world" where
  "import_rows X bs rs w =
     (let total_rows = length rs;
          w1 = emit SessionOpen w
      in case batch_loop X bs total_rows rs 0 [] w1 of
           (batch, w2) \<Rightarrow>
             emit SessionClose
               (if batch \<noteq> []
                then print (Processed total_rows total_rows) (session_run X (Import batch) w2)
                else w2))"

text \<open>The required columns that the header lacks (line 63).\<close>

definition missing_cols :: "dataframe \<Rightarrow> string list" where
  "missing_cols df = filter (\<lambda>col. col \<notin> set (df_columns df)) required_cols"

definition load_csv_data :: "ext \<Rightarrow> string \<Rightarrow> dataframe option \<Rightarrow> world \<Rightarrow> world" where
  "load_csv_data X csv_path file w =
     (case file of
        None \<Rightarrow> print (CsvNotFound csv_path) w
      | Some df0 \<Rightarrow>
          (let w1 = print (Reading csv_path) w;
               missing = missing_cols df0
           in if missing \<noteq> []
              then print (AvailableColumns (df_columns df0)) (print (MissingColumns missing) w1)
              else (let df = fillna0 df0;
                        total_rows = length (df_rows df)
                    in import_rows X batch_size (df_rows df)
                         (print (FoundRecords total_rows) w1))))"

definition builder_init :: "string \<Rightarrow> string \<Rightarrow> string \<Rightarrow> world \<Rightarrow> world" where
  "builder_init uri user password w = emit (DriverCreate uri user password) w"

definition close :: "world \<Rightarrow> world" where
  "close w = emit DriverClose w"

definition clear_database :: "ext \<Rightarrow> world \<Rightarrow> world" where
  "clear_database X w =
     print DatabaseCleared
       (emit SessionClose (session_run X ClearAll (emit SessionOpen (print ClearingDatabase w))))"

definition create_constraints :: "ext \<Rightarrow> world \<Rightarrow> world" where
  "create_constraints X w =
     emit SessionClose
       (session_run X (CreateIndex ''flight_idx'')
         (session_run X (CreateConstraint ''airport_id'')
           (session_run X (CreateConstraint ''journey_id'')
             (session_run X (CreateConstraint ''passenger_id'')
               (emit SessionOpen (print CreatingConstraints w))))))"

text \<open>
  The main program (lines 138-151). A \<^verbatim>\<open>KeyError\<close> of \<^verbatim>\<open>config[...]\<close> is caught
  by \<^verbatim>\<open>except Exception\<close> and printed.
\<close>

definition main :: "ext \<Rightarrow> string list option \<Rightarrow> dataframe option \<Rightarrow> world \<Rightarrow> world" where
  "main X config_file csv_file w =
     (case load_config ''config.txt'' config_file w of
        (None, w1) \<Rightarrow> w1
      | (Some config, w1) \<Rightarrow>
          if config = [] then w1
          else (case config_get config ''URI'' of
                  Inl e \<Rightarrow> print (ErrorOccurred e) w1
                | Inr uri \<Rightarrow>
                   (case config_get config ''USERNAME'' of
                      Inl e \<Rightarrow> print (ErrorOccurred e) w1
                    | Inr user \<Rightarrow>
                       (case config_get config ''PASSWORD'' of
                          Inl e \<Rightarrow> print (ErrorOccurred e) w1
                        | Inr password \<Rightarrow>
                            print Success
                              (close
                                (load_csv_data X ''Airline_surveys_sample.csv'' csv_file
                                  (create_constraints X
                                    (clear_database X
                                      (builder_init uri user password w1)))))))))"

subsection \<open>The validator (\<^verbatim>\<open>validate_queries.py\<close>)\<close>

text \<open>A result row is a dictionary from column names to scalars, in insertion order.\<close>

type_synonym pyrow = "(string \<times> pyval) list"

text \<open>\<^verbatim>\<open>act_row.get(key)\<close>: \<^verbatim>\<open>None\<close> when the key is missing.\<close>

definition dict_get :: "pyrow \<Rightarrow> string \<Rightarrow> pyval" where
  "dict_get row key = (case map_of row key of None \<Rightarrow> PNone | Some v \<Rightarrow> v)"

text \<open>\<^verbatim>\<open>isinstance(v, float)\<close> and \<^verbatim>\<open>isinstance(v, (int, float))\<close>; \<^verbatim>\<open>bool\<close> is a subclass of \<^verbatim>\<open>int\<close>.\<close>

fun is_float :: "pyval \<Rightarrow> bool" where
  "is_float (PFloat x) = True"
| "is_float v = False"

fun is_int_or_float :: "pyval \<Rightarrow> bool" where
  "is_int_or_float (PBool b) = True"
| "is_int_or_float (PInt i) = True"
| "is_int_or_float (PFloat x) = True"
| "is_int_or_float v = False"

text \<open>The number a numeric value denotes (\<^verbatim>\<open>True\<close> is 1, \<^verbatim>\<open>False\<close> is 0).\<close>

fun num_of :: "pyval \<Rightarrow> real" where
  "num_of (PBool b) = (if b then 1 else 0)"
| "num_of (PInt i) = of_int i"
| "num_of (PFloat x) = x"
| "num_of v = 0"

text \<open>
  Double precision. A finite double is \<open>m * 2 ^ e\<close> with \<open>\<bar>m\<bar> < 2 ^ 53\<close> and
  \<open>- 1074 \<le> e\<close>; an operation on doubles gives the double nearest to the exact result,
  a tie going to the one with the even \<open>m\<close>. \<open>binary_exponent\<close> finds, by halving or
  doubling, the \<open>k\<close> with \<open>2 ^ k \<le> x < 2 ^ (k + 1)\<close>, but not below \<open>- 1022\<close>, where
  the doubles are evenly spaced (its first argument bounds the number of steps and is
  never used up for a value below \<open>2 ^ 2200\<close>). An overflow to infinity is not
  modelled: the result stays the finite real, which compares with every finite double
  as infinity does.
\<close>

fun binary_exponent :: "nat \<Rightarrow> int \<Rightarrow> real \<Rightarrow> int" where
  "binary_exponent 0 e x = e"
| "binary_exponent (Suc n) e x =
     (if 2 \<le> x then binary_exponent n (e + 1) (x / 2)
      else if x < 1 \<and> - 1022 < e then binary_exponent n (e - 1) (2 * x)
      else e)"

definition ulp_exponent :: "real \<Rightarrow> int" where
  "ulp_exponent x = binary_exponent 2200 0 \<bar>x\<bar> - 52"

definition round_half_even :: "real \<Rightarrow> int" where
  "round_half_even q =
     (let f = \<lfloor>q\<rfloor>; d = q - of_int f
      in if d < 1 / 2 then f else if 1 / 2 < d then f + 1 else if even f then f else f + 1)"

definition round_to_double :: "real \<Rightarrow> real" where
  "round_to_double x =
     of_int (round_half_even (x / 2 powi ulp_exponent x)) * 2 powi ulp_exponent x"

text \<open>A float literal of the source denotes the double nearest to its decimal.\<close>

definition float_literal :: "real \<Rightarrow> real" where
  "float_literal x = round_to_double x"

text \<open>The literal \<^verbatim>\<open>1e-9\<close> of line 126.\<close>

definition rel_tol_1e_9 :: real where
  "rel_tol_1e_9 = float_literal (1 / 10 ^ 9)"

text \<open>
  The conversion of an argument of \<^verbatim>\<open>math.isclose\<close> to a double: a float is taken as
  it is, an int is rounded to the nearest double. (For an int beyond the range of a
  double the conversion raises \<^verbatim>\<open>OverflowError\<close>; the model has no such path, and
  the properties of the float comparison are stated for values that convert. The
  integers of the store are 64-bit and always convert.)
\<close>

fun float_of :: "pyval \<Rightarrow> real" where
  "float_of (PFloat x) = x"
| "float_of (PInt i) = round_to_double (of_int i)"
| "float_of (PBool b) = (if b then 1 else 0)"
| "float_of v = 0"

fun converts :: "pyval \<Rightarrow> bool" where
  "converts (PInt i) = (\<bar>round_to_double (of_int i)\<bar> < 2 ^ 1024)"
| "converts v = True"

text \<open>
  \<^verbatim>\<open>math.isclose(a, b, rel_tol=r)\<close> with the default \<^verbatim>\<open>abs_tol=0.0\<close>, as the
  C implementation computes it on finite doubles: the difference and the two products
  are rounded.
\<close>

definition isclose :: "real \<Rightarrow> real \<Rightarrow> real \<Rightarrow> bool" where
  "isclose a b rel_tol =
     (a = b \<or>
      (let diff = \<bar>round_to_double (b - a)\<bar>
       in diff \<le> \<bar>round_to_double (rel_tol * b)\<bar> \<or>
          diff \<le> \<bar>round_to_double (rel_tol * a)\<bar> \<or> diff \<le> 0))"

text \<open>
  Python's \<^verbatim>\<open>==\<close> on scalars: numbers (bool, int, float) compare by value, strings
  with strings, \<^verbatim>\<open>None\<close> with \<^verbatim>\<open>None\<close>; anything else is unequal.
\<close>

fun py_eq :: "pyval \<Rightarrow> pyval \<Rightarrow> bool" where
  "py_eq PNone PNone = True"
| "py_eq (PStr s) (PStr t) = (s = t)"
| "py_eq a b = (is_int_or_float a \<and> is_int_or_float b \<and> num_of a = num_of b)"

text \<open>
  Lines 125-130 for one field: the value of \<^verbatim>\<open>row_match\<close> after the two branches,
  given that it was \<^verbatim>\<open>True\<close> before (it is set to \<^verbatim>\<open>True\<close> at the start of the row
  and the loop over the fields is left as soon as it is \<^verbatim>\<open>False\<close>).
\<close>

definition field_ok :: "pyval \<Rightarrow> pyval \<Rightarrow> bool" where
  "field_ok act_val exp_val =
     (if is_float exp_val \<and> is_int_or_float act_val
      then (if \<not> isclose (float_of act_val) (float_of exp_val) rel_tol_1e_9 then False else True)
      else (if \<not> py_eq act_val exp_val then False else True))"

text \<open>The loop over \<^verbatim>\<open>exp_row.items()\<close> (lines 121-135); it returns \<^verbatim>\<open>all_match\<close>.\<close>

fun fields_loop :: "nat \<Rightarrow> pyrow \<Rightarrow> pyrow \<Rightarrow> bool \<Rightarrow> world \<Rightarrow> bool \<times> world" where
  "fields_loop i act_row [] all_match w = (all_match, w)"
| "fields_loop i act_row ((key, exp_val) # rest) all_match w =
     (let act_val = dict_get act_row key;
          row_match = field_ok act_val exp_val
      in if \<not> row_match
         then (False, print (Mismatch i key exp_val act_val) w)
         else fields_loop i act_row rest all_match w)"

text \<open>The loop over \<^verbatim>\<open>enumerate(zip(actual, expected))\<close> (lines 119-135).\<close>

fun rows_loop :: "nat \<Rightarrow> (pyrow \<times> pyrow) list \<Rightarrow> bool \<Rightarrow> world \<Rightarrow> bool \<times> world" where
  "rows_loop i [] all_match w = (all_match, w)"
| "rows_loop i ((act_row, exp_row) # rest) all_match w =
     (case fields_loop i act_row exp_row all_match w of
        (all_match', w') \<Rightarrow> rows_loop (i + 1) rest all_match' w')"

text \<open>
  \<^verbatim>\<open>compare_results\<close> returns \<^verbatim>\<open>False\<close> on a length mismatch and nothing
  (\<^verbatim>\<open>None\<close>) otherwise; the verdict is the line it prints.
\<close>

definition compare_results :: "nat \<Rightarrow> pyrow list \<Rightarrow> pyrow list \<Rightarrow> world \<Rightarrow> bool option \<times> world" where
  "compare_results query_num actual expected w =
     (let w1 = print (Validating query_num) w
      in if length actual \<noteq> length expected
         then (Some False, print (LengthMismatch (length expected) (length actual)) w1)
         else (case rows_loop 0 (zip actual expected) True w1 of
                 (all_match, w2) \<Rightarrow> (None, print (if all_match then Pass else Fail) w2)))"

definition EXPECTED_RESULTS :: "(nat \<times> pyrow list) list" where
  "EXPECTED_RESULTS =
   [(1, [[(''origin'', PStr ''LAX''), (''destination'', PStr ''IAX''), (''flight_count'', PInt 21)],
         [(''origin'', PStr ''LAX''), (''destination'', PStr ''EWX''), (''flight_count'', PInt 17)],
         [(''origin'', PStr ''IAX''), (''destination'', PStr ''LAX''), (''flight_count'', PInt 17)],
         [(''origin'', PStr ''SAX''), (''destination'', PStr ''IAX''), (''flight_count'', PInt 15)],
         [(''origin'', PStr ''IAX''), (''destination'', PStr ''EWX''), (''flight_count'', PInt 14)]]),
    (2, [[(''flight_id'', PInt 42), (''feedback_count'', PInt 14)],
         [(''flight_id'', PInt 19), (''feedback_count'', PInt 13)],
         [(''flight_id'', PInt 86), (''feedback_count'', PInt 12)],
         [(''flight_id'', PInt 27), (''feedback_count'', PInt 12)],
         [(''flight_id'', PInt 966), (''feedback_count'', PInt 12)],
         [(''flight_id'', PInt 57), (''feedback_count'', PInt 11)],
         [(''flight_id'', PInt 1686), (''feedback_count'', PInt 11)],
         [(''flight_id'', PInt 219), (''feedback_count'', PInt 11)],
         [(''flight_id'', PInt 819), (''feedback_count'', PInt 9)],
         [(''flight_id'', PInt 991), (''feedback_count'', PInt 9)]]),
    (3, [[(''generation'', PStr ''Boomer''), (''multi_leg_count'', PInt 498),
          (''avg_score'', PFloat (float_literal 2.7911646586345387))],
         [(''generation'', PStr ''Gen X''), (''multi_leg_count'', PInt 285),
          (''avg_score'', PFloat (float_literal 2.999999999999999))],
         [(''generation'', PStr ''Millennial''), (''multi_leg_count'', PInt 130),
          (''avg_score'', PFloat (float_literal 2.738461538461538))],
         [(''generation'', PStr ''Silent''), (''multi_leg_count'', PInt 48),
          (''avg_score'', PFloat (float_literal 2.6874999999999996))],
         [(''generation'', PStr ''Gen Z''), (''multi_leg_count'', PInt 18),
          (''avg_score'', PFloat (float_literal 3.2777777777777777))]]),
    (4, [[(''flight_id'', PInt 2442), (''avg_arrival_delay'', PFloat (float_literal (- 99)))],
         [(''flight_id'', PInt 274), (''avg_arrival_delay'', PFloat (float_literal (- 60)))],
         [(''flight_id'', PInt 425), (''avg_arrival_delay'', PFloat (float_literal (- 59)))],
         [(''flight_id'', PInt 982), (''avg_arrival_delay'', PFloat (float_literal (- 46)))],
         [(''flight_id'', PInt 120), (''avg_arrival_delay'', PFloat (float_literal (- 45)))],
         [(''flight_id'', PInt 1237), (''avg_arrival_delay'', PFloat (float_literal (- 44)))],
         [(''flight_id'', PInt 894), (''avg_arrival_delay'', PFloat (float_literal (- 42.5)))],
         [(''flight_id'', PInt 3546), (''avg_arrival_delay'', PFloat (float_literal (- 42)))],
         [(''flight_id'', PInt 942), (''avg_arrival_delay'', PFloat (float_literal (- 41.333333333333336)))],
         [(''flight_id'', PInt 828), (''avg_arrival_delay'', PFloat (float_literal (- 41)))]]),
    (5, [[(''loyalty_level'', PStr ''global services''),
          (''avg_actual_flown_miles'', PFloat (float_literal 2648.083333333333))],
         [(''loyalty_level'', PStr ''premier gold''),
          (''avg_actual_flown_miles'', PFloat (float_literal 2461.018518518519))],
         [(''loyalty_level'', PStr ''premier platinum''),
          (''avg_actual_flown_miles'', PFloat (float_literal 2420.5714285714294))],
         [(''loyalty_level'', PStr ''non-elite''),
          (''avg_actual_flown_miles'', PFloat (float_literal 2254.072))],
         [(''loyalty_level'', PStr ''premier silver''),
          (''avg_actual_flown_miles'', PFloat (float_literal 2068.673529411763))],
         [(''loyalty_level'', PStr ''NBK''),
          (''avg_actual_flown_miles'', PFloat (float_literal 1989))],
         [(''loyalty_level'', PStr ''premier 1k''),
          (''avg_actual_flown_miles'', PFloat (float_literal 1897.6666666666672))]])]"

text \<open>
  The loop over \<^verbatim>\<open>range(1, 6)\<close> (lines 150-153); \<open>answers q\<close> is the list of
  records the store returns for query \<open>q\<close>.
\<close>

fun queries_loop :: "ext \<Rightarrow> (nat \<Rightarrow> pyrow list) \<Rightarrow> nat list \<Rightarrow> world \<Rightarrow> py_error + world" where
  "queries_loop X answers [] w = Inr w"
| "queries_loop X answers (q_num # rest) w =
     (let w1 = session_run X (Query q_num) w;
          actual_data = answers q_num
      in case map_of EXPECTED_RESULTS q_num of
           None \<Rightarrow> Inl (KeyError (PInt (int q_num)))
         | Some expected \<Rightarrow>
             queries_loop X answers rest (snd (compare_results q_num actual_data expected w1)))"

text \<open>
  \<^verbatim>\<open>run_validation\<close> (lines 142-155). Here a \<^verbatim>\<open>KeyError\<close> is not caught: the
  program ends with it, before the driver is created.
\<close>

definition run_validation ::
  "ext \<Rightarrow> string list option \<Rightarrow> (nat \<Rightarrow> pyrow list) \<Rightarrow> world \<Rightarrow> py_error + world" where
  "run_validation X config_file answers w =
     (case load_config ''config.txt'' config_file w of
        (None, w1) \<Rightarrow> Inr w1
      | (Some config, w1) \<Rightarrow>
          if config = [] then Inr w1
          else (case config_get config ''URI'' of
                  Inl e \<Rightarrow> Inl e
                | Inr uri \<Rightarrow>
                   (case config_get config ''USERNAME'' of
                      Inl e \<Rightarrow> Inl e
                    | Inr user \<Rightarrow>
                       (case config_get config ''PASSWORD'' of
                          Inl e \<Rightarrow> Inl e
                        | Inr password \<Rightarrow>
                           (case queries_loop X answers [1..<6]
                                   (emit SessionOpen (emit (DriverCreate uri user password) w1)) of
                              Inl e \<Rightarrow> Inl e
                            | Inr w2 \<Rightarrow> Inr (emit DriverClose (emit SessionClose w2)))))))"

subsection \<open>Descriptions used to state the properties\<close>





text \<open>The nodes and the relationships of a graph, without the properties.\<close>

definition nodes_and_relationships ::
  "graph \<Rightarrow> (string list \<times> flight_key list \<times> string list \<times> string list) \<times>
     ((flight_key \<times> string) list \<times> (flight_key \<times> string) list \<times>
      (string \<times> string) list \<times> (string \<times> flight_key) list)" where
  "nodes_and_relationships g =
     ((airport_nodes g, flight_nodes g, passenger_nodes g, journey_nodes g),
      (departs_from g, arrives_at g, took g, on_flight g))"

text \<open>The Python type of a scalar.\<close>

datatype pytype = NoneType | BoolType | IntType | FloatType | StrType

fun py_type :: "pyval \<Rightarrow> pytype" where
  "py_type PNone = NoneType"
| "py_type (PBool b) = BoolType"
| "py_type (PInt i) = IntType"
| "py_type (PFloat x) = FloatType"
| "py_type (PStr s) = StrType"

text \<open>
  A row matches when every expected field is accepted; the report of a row is the
  mismatch line of its first expected field that is not accepted, if there is one.
\<close>

definition row_matches :: "pyrow \<Rightarrow> pyrow \<Rightarrow> bool" where
  "row_matches act_row exp_row =
     list_all (\<lambda>(key, exp_val). field_ok (dict_get act_row key) exp_val) exp_row"

definition row_report :: "nat \<Rightarrow> pyrow \<Rightarrow> pyrow \<Rightarrow> msg list" where
  "row_report i act_row exp_row =
     (case find (\<lambda>(key, exp_val). \<not> field_ok (dict_get act_row key) exp_val) exp_row of
        None \<Rightarrow> []
      | Some (key, exp_val) \<Rightarrow> [Mismatch i key exp_val (dict_get act_row key)])"

definition all_reports :: "pyrow list \<Rightarrow> pyrow list \<Rightarrow> msg list" where
  "all_reports actual expected =
     concat (map (\<lambda>(i, act_row, exp_row). row_report i act_row exp_row)
                 (enumerate 0 (zip actual expected)))"

definition all_rows_match :: "pyrow list \<Rightarrow> pyrow list \<Rightarrow> bool" where
  "all_rows_match actual expected =
     list_all (\<lambda>(act_row, exp_row). row_matches act_row exp_row) (zip actual expected)"

subsection \<open>Example inputs\<close>

text \<open>
  Concrete inputs for the examples below. The environment \<open>example_ext\<close> renders every
  number as \<^verbatim>\<open>0\<close> and parses no string; the example frames hold strings in the
  columns that go through \<^verbatim>\<open>str\<close> and numbers in the others, so neither function
  decides an example.
\<close>

definition example_ext :: ext where
  "example_ext = \<lparr>num_str = (\<lambda>c. ''0''), parse_number = (\<lambda>s. None)\<rparr>"

definition example_config :: "string list" where
  "example_config =
     [''# connection'' @ [CHR 0x0A],
      ''URI=bolt://localhost:7687?db=a'' @ [CHR 0x0A],
      ''USERNAME=neo4j'' @ [CHR 0x0A],
      ''PASSWORD=secret'' @ [CHR 0x0A]]"

definition row_of :: "(string \<times> cell) list \<Rightarrow> string \<Rightarrow> cell" where
  "row_of cells col = (case map_of cells col of None \<Rightarrow> NaN | Some c \<Rightarrow> c)"

definition example_cells1 :: "(string \<times> cell) list" where
  "example_cells1 =
     [(''origin_station_code'', StrC ''LAX''), (''destination_station_code'', StrC ''IAX''),
      (''flight_number'', StrC ''42''), (''fleet_type_description'', StrC ''B737-800''),
      (''record_locator'', StrC ''AB12CD''), (''loyalty_program_level'', StrC ''premier gold''),
      (''generation'', StrC ''Boomer''), (''food_satisfaction_score'', FloatC 2.7),
      (''arrival_delay_minutes'', FloatC (- 2.7)), (''actual_flown_miles'', IntC 1200),
      (''number_of_legs'', NaN), (''passenger_class'', StrC ''Economy''),
      (''feedback_ID'', StrC ''F1'')]"

definition example_cells2 :: "(string \<times> cell) list" where
  "example_cells2 =
     [(''origin_station_code'', StrC ''LAX''), (''destination_station_code'', StrC ''EWX''),
      (''flight_number'', StrC ''19''), (''fleet_type_description'', StrC ''A320-200''),
      (''record_locator'', StrC ''AB12CD''), (''loyalty_program_level'', StrC ''premier 1k''),
      (''generation'', StrC ''Boomer''), (''food_satisfaction_score'', FloatC 4),
      (''arrival_delay_minutes'', FloatC 15), (''actual_flown_miles'', IntC 800),
      (''number_of_legs'', FloatC 2), (''passenger_class'', StrC ''Business''),
      (''feedback_ID'', StrC ''F2'')]"

definition example_df :: dataframe where
  "example_df =
     \<lparr>df_columns = required_cols,
      df_rows = [row_of example_cells1, row_of example_cells2, row_of example_cells1]\<rparr>"

text \<open>The records built from the rows of \<open>example_df\<close>.\<close>

definition example_records :: "row_data list" where
  "example_records = map (make_row_data example_ext) (df_rows (fillna0 example_df))"

text \<open>The same frame without the column \<^verbatim>\<open>feedback_ID\<close>.\<close>

definition example_df_missing :: dataframe where
  "example_df_missing =
     \<lparr>df_columns = butlast required_cols,
      df_rows = [row_of (butlast example_cells1), row_of (butlast example_cells2)]\<rparr>"

text \<open>A frame of 1001 equal rows: two full batches and a rest of one.\<close>

definition example_big_df :: dataframe where
  "example_big_df = \<lparr>df_columns = required_cols, df_rows = replicate 1001 (row_of example_cells1)\<rparr>"



text \<open>The first expected row of query 3, and the row computed by the store.\<close>

definition example_expected3 :: "pyrow list" where
  "example_expected3 =
     [[(''generation'', PStr ''Boomer''), (''multi_leg_count'', PInt 498),
       (''avg_score'', PFloat (float_literal 2.7911646586345387))]]"

definition example_actual3 :: "pyrow list" where
  "example_actual3 =
     [[(''generation'', PStr ''Boomer''), (''multi_leg_count'', PInt 498),
       (''avg_score'', PFloat (float_literal 2.791164658634539))]]"

text \<open>The same configuration with a line that asks for batches of one record.\<close>

definition example_config_batch :: "string list" where
  "example_config_batch = example_config @ [''BATCH_SIZE=1'' @ [CHR 0x0A]]"

text \<open>A store that already holds one Airport node, before the program runs.\<close>

definition example_world :: world where
  "example_world =
     \<lparr>store = empty_graph\<lparr>airport_nodes := [''SAX'']\<rparr>, trace = [], out = []\<rparr>"

section \<open>Properties\<close>

subsection \<open>Auxiliary facts: configuration lines\<close>

lemma mem_dropWhile: "c \<in> set s \<Longrightarrow> \<not> P c \<Longrightarrow> c \<in> set (dropWhile P s)"
  by (induction s) auto

lemma eq_in_strip: "CHR ''='' \<in> set line \<Longrightarrow> CHR ''='' \<in> set (strip line)"
  by (simp add: strip_def mem_dropWhile is_space_def)

lemma split_eq_first:
  assumes "CHR ''='' \<in> set s"
  shows "s = fst (split_eq s) @ ''='' @ snd (split_eq s) \<and> CHR ''='' \<notin> set (fst (split_eq s))"
proof -
  let ?P = "\<lambda>c. c \<noteq> CHR ''=''"
  from assms have ne: "dropWhile ?P s \<noteq> []" by (simp add: dropWhile_eq_Nil_conv) 
  then have "hd (dropWhile ?P s) = CHR ''=''" using hd_dropWhile[of ?P s] by simp
  with ne have "dropWhile ?P s = CHR ''='' # tl (dropWhile ?P s)"
    by (cases "dropWhile ?P s") auto
  then have "s = takeWhile ?P s @ ''='' @ tl (dropWhile ?P s)"
    using takeWhile_dropWhile_id[of ?P s] by simp
  moreover have "CHR ''='' \<notin> set (takeWhile ?P s)" using set_takeWhileD by fastforce
  ultimately show ?thesis by (simp add: split_eq_def)
qed

lemma config_lines_map_of:
  "map_of (config_lines lines cfg) =
     map_of cfg ++ map_of (rev (map (\<lambda>l. split_eq (strip l)) (filter (\<lambda>l. CHR ''='' \<in> set l) lines)))"
  by (induction lines arbitrary: cfg) (auto simp: AList.update_conv' split: prod.splits)

subsection \<open>Auxiliary facts: the loader\<close>

lemmas world_ops = emit_def print_def session_run_def

lemma import_query_Nil: "import_query X [] g = g"
  by (simp add: import_query_def)

lemma import_query_Cons: "import_query X (r # rs) g = import_query X rs (import_row X r g)"
  by (simp add: import_query_def)

lemma import_query_append:
  "import_query X (xs @ ys) g = import_query X ys (import_query X xs g)"
  by (simp add: import_query_def)

lemma batch_loop_store:
  "batch_loop X bs t rs i b w = (b', w') \<Longrightarrow>
   import_query X b' (store w') = import_query X (b @ map (make_row_data X) rs) (store w)"
proof (induction rs arbitrary: i b w)
  case Nil
  then show ?case by simp
next
  case (Cons r rs)
  show ?case
  proof (cases "bs \<le> length (b @ [make_row_data X r])")
    case True
    with Cons.prems have
      "batch_loop X bs t rs (i + 1) []
         (print (Processed (i + 1) t) (session_run X (Import (b @ [make_row_data X r])) w)) = (b', w')"
      by (simp add: Let_def)
    from Cons.IH[OF this] show ?thesis
      by (simp add: world_ops import_query_append import_query_Cons import_query_Nil)
  next
    case False
    with Cons.prems have
      "batch_loop X bs t rs (i + 1) (b @ [make_row_data X r]) w = (b', w')"
      by (simp add: Let_def)
    from Cons.IH[OF this] show ?thesis by simp
  qed
qed

lemma import_rows_store:
  "store (import_rows X bs rs w) = import_query X (map (make_row_data X) rs) (store w)"
proof -
  obtain b' w' where bl: "batch_loop X bs (length rs) rs 0 [] (emit SessionOpen w) = (b', w')"
    by (cases "batch_loop X bs (length rs) rs 0 [] (emit SessionOpen w)") auto
  from batch_loop_store[OF bl] have
    "import_query X b' (store w') = import_query X (map (make_row_data X) rs) (store w)"
    by (simp add: world_ops)
  moreover have "b' = [] \<Longrightarrow> import_query X b' (store w') = store w'"
    by (simp add: import_query_def)
  ultimately show ?thesis using bl
    by (auto simp: import_rows_def Let_def world_ops)
qed

lemma load_csv_data_store:
  "store (load_csv_data X p file w) =
     (case file of None \<Rightarrow> store w
      | Some df \<Rightarrow> if missing_cols df \<noteq> [] then store w
                   else import_query X (map (make_row_data X) (df_rows (fillna0 df))) (store w))"
  by (simp add: load_csv_data_def Let_def import_rows_store world_ops split: option.splits)

lemma main_ok:
  assumes "map_of (config_lines lines []) ''URI'' = Some uri"
      and "map_of (config_lines lines []) ''USERNAME'' = Some user"
      and "map_of (config_lines lines []) ''PASSWORD'' = Some password"
  shows "main X (Some lines) csv w =
           print Success (close (load_csv_data X ''Airline_surveys_sample.csv'' csv
             (create_constraints X (clear_database X (builder_init uri user password w)))))"
proof -
  from assms(1) have "config_lines lines [] \<noteq> []" by auto
  with assms show ?thesis
    by (simp add: main_def load_config_def config_get_def)
qed

lemma prepare_world:
  "create_constraints X (clear_database X (builder_init uri user password w)) =
     \<lparr>store = empty_graph,
      trace = trace w @ [DriverCreate uri user password, SessionOpen, Run ClearAll, SessionClose,
                SessionOpen, Run (CreateConstraint ''passenger_id''),
                Run (CreateConstraint ''journey_id''), Run (CreateConstraint ''airport_id''),
                Run (CreateIndex ''flight_idx''), SessionClose],
      out = out w @ [ClearingDatabase, DatabaseCleared, CreatingConstraints]\<rparr>"
  by (simp add: create_constraints_def clear_database_def builder_init_def world_ops)

lemma example_config_lines:
  "config_lines example_config [] =
     [(''URI'', ''bolt://localhost:7687?db=a''), (''USERNAME'', ''neo4j''), (''PASSWORD'', ''secret'')]"
  by (simp add: example_config_def strip_def is_space_def split_eq_def)

lemma example_missing:
  "missing_cols example_df_missing = [''feedback_ID'']"
  by (simp add: missing_cols_def example_df_missing_def required_cols_def)

lemma example_not_missing:
  "missing_cols example_df = []"
  by (simp add: missing_cols_def example_df_def)

subsection \<open>Auxiliary facts: the import query\<close>

lemma fold_sel:
  assumes "\<And>r g. sel (step r g) = op r (sel g)"
  shows "sel (fold step rows g) = fold op rows (sel g)"
  using assms by (induction rows arbitrary: g) simp_all

lemma fold_insert_set:
  "set (fold (\<lambda>r. fold List.insert (h r)) rows xs) = set xs \<union> (\<Union>r\<in>set rows. set (h r))"
proof (induction rows arbitrary: xs)
  case Nil
  then show ?case by simp
next
  case (Cons r rows)
  have "set (fold List.insert ys xs) = set xs \<union> set ys" for ys :: "'a list" and xs
    by (induction ys arbitrary: xs) auto
  with Cons show ?case by auto
qed

lemma fold_insert_absorb:
  "(\<Union>r\<in>set rows. set (h r)) \<subseteq> set xs \<Longrightarrow> fold (\<lambda>r. fold List.insert (h r)) rows xs = xs"
proof (induction rows)
  case Nil
  then show ?case by simp
next
  case (Cons r rows)
  have "set ys \<subseteq> set xs \<Longrightarrow> fold List.insert ys xs = xs" for ys :: "'a list"
    by (induction ys) (auto simp: List.insert_def)
  with Cons show ?case by simp
qed

lemma fold_insert_idem:
  "fold (\<lambda>r. fold List.insert (h r)) rows (fold (\<lambda>r. fold List.insert (h r)) rows xs) =
   fold (\<lambda>r. fold List.insert (h r)) rows xs"
  by (rule fold_insert_absorb) (auto simp: fold_insert_set)

lemma fold_upd:
  "fold (\<lambda>r m. m(k r \<mapsto> v r)) rows m = m ++ map_of (rev (map (\<lambda>r. (k r, v r)) rows))"
  by (induction rows arbitrary: m) (simp_all add: map_add_assoc[symmetric])

lemma map_of_find:
  "map_of (map (\<lambda>r. (key r, val r)) rs) k = map_option val (find (\<lambda>r. key r = k) rs)"
  by (induction rs) auto

lemma fold_upd_last:
  "fold (\<lambda>r m. m(key r \<mapsto> val r)) rows m k =
     (case find (\<lambda>r. key r = k) (rev rows) of None \<Rightarrow> m k | Some r \<Rightarrow> Some (val r))"
  by (simp add: fold_upd rev_map map_of_find map_add_def split: option.splits)

lemma map_add_absorb: "(m ++ n) ++ n = m ++ n"
  by (rule ext) (simp add: map_add_def split: option.splits)

lemma fold_upd_idem:
  "fold (\<lambda>r m. m(k r \<mapsto> v r)) rows (fold (\<lambda>r m. m(k r \<mapsto> v r)) rows m) =
   fold (\<lambda>r m. m(k r \<mapsto> v r)) rows m"
  by (simp add: fold_upd map_add_absorb)

lemma airport_nodes_import:
  "airport_nodes (import_query X rows g) =
     fold (\<lambda>r. fold List.insert [origin_station_code r, destination_station_code r]) rows (airport_nodes g)"
  unfolding import_query_def by (rule fold_sel) (simp add: import_row_def Let_def)

lemma flight_nodes_import:
  "flight_nodes (import_query X rows g) =
     fold (\<lambda>r. fold List.insert [(flight_number r, fleet_type_description r)]) rows (flight_nodes g)"
  unfolding import_query_def by (rule fold_sel) (simp add: import_row_def Let_def)

lemma passenger_nodes_import:
  "passenger_nodes (import_query X rows g) =
     fold (\<lambda>r. fold List.insert [record_locator r]) rows (passenger_nodes g)"
  unfolding import_query_def by (rule fold_sel) (simp add: import_row_def Let_def)

lemma journey_nodes_import:
  "journey_nodes (import_query X rows g) =
     fold (\<lambda>r. fold List.insert [feedback_ID r]) rows (journey_nodes g)"
  unfolding import_query_def by (rule fold_sel) (simp add: import_row_def Let_def)

lemma departs_from_import:
  "departs_from (import_query X rows g) =
     fold (\<lambda>r. fold List.insert [((flight_number r, fleet_type_description r), origin_station_code r)])
       rows (departs_from g)"
  unfolding import_query_def by (rule fold_sel) (simp add: import_row_def Let_def)

lemma arrives_at_import:
  "arrives_at (import_query X rows g) =
     fold (\<lambda>r. fold List.insert [((flight_number r, fleet_type_description r), destination_station_code r)])
       rows (arrives_at g)"
  unfolding import_query_def by (rule fold_sel) (simp add: import_row_def Let_def)

lemma took_import:
  "took (import_query X rows g) =
     fold (\<lambda>r. fold List.insert [(record_locator r, feedback_ID r)]) rows (took g)"
  unfolding import_query_def by (rule fold_sel) (simp add: import_row_def Let_def)

lemma on_flight_import:
  "on_flight (import_query X rows g) =
     fold (\<lambda>r. fold List.insert [(feedback_ID r, (flight_number r, fleet_type_description r))])
       rows (on_flight g)"
  unfolding import_query_def by (rule fold_sel) (simp add: import_row_def Let_def)

lemma passenger_props_import:
  "passenger_props (import_query X rows g) =
     fold (\<lambda>r m. m(record_locator r \<mapsto> passenger_set r)) rows (passenger_props g)"
  unfolding import_query_def by (rule fold_sel) (simp add: import_row_def Let_def)

lemma journey_props_import:
  "journey_props (import_query X rows g) =
     fold (\<lambda>r m. m(feedback_ID r \<mapsto> journey_set X r)) rows (journey_props g)"
  unfolding import_query_def by (rule fold_sel) (simp add: import_row_def Let_def)

lemmas import_fields =
  airport_nodes_import flight_nodes_import passenger_nodes_import journey_nodes_import
  departs_from_import arrives_at_import took_import on_flight_import
  passenger_props_import journey_props_import

lemma import_query_idem:
  "import_query X rows (import_query X rows g) = import_query X rows g"
  by (rule graph.equality) (simp_all only: import_fields fold_insert_idem fold_upd_idem, simp)

lemma props_after_batch:
  "passenger_props (import_query X b g) k =
     (if k \<in> record_locator ` set b then passenger_props (import_query X b empty_graph) k
      else passenger_props g k)"
  "journey_props (import_query X b g) k =
     (if k \<in> feedback_ID ` set b then journey_props (import_query X b empty_graph) k
      else journey_props g k)"
proof -
  have f: "find (\<lambda>r. key r = k) (rev b) = None \<longleftrightarrow> k \<notin> key ` set b" for key :: "row_data \<Rightarrow> string"
    by (auto simp: find_None_iff)
  show "passenger_props (import_query X b g) k =
     (if k \<in> record_locator ` set b then passenger_props (import_query X b empty_graph) k
      else passenger_props g k)"
    using f[of record_locator]
    by (cases "find (\<lambda>r. record_locator r = k) (rev b)")
       (simp_all add: passenger_props_import fold_upd_last)
  show "journey_props (import_query X b g) k =
     (if k \<in> feedback_ID ` set b then journey_props (import_query X b empty_graph) k
      else journey_props g k)"
    using f[of feedback_ID]
    by (cases "find (\<lambda>r. feedback_ID r = k) (rev b)")
       (simp_all add: journey_props_import fold_upd_last)
qed

lemma props_after_batches:
  "passenger_props (fold (import_query X) batches g) k =
     (case find (\<lambda>b. k \<in> record_locator ` set b) (rev batches) of
        None \<Rightarrow> passenger_props g k
      | Some b \<Rightarrow> passenger_props (import_query X b empty_graph) k)"
  "journey_props (fold (import_query X) batches g) k =
     (case find (\<lambda>b. k \<in> feedback_ID ` set b) (rev batches) of
        None \<Rightarrow> journey_props g k
      | Some b \<Rightarrow> journey_props (import_query X b empty_graph) k)"
proof (induction batches rule: rev_induct)
  case Nil
  { case 1 show ?case by simp }
  { case 2 show ?case by simp }
next
  case (snoc b batches)
  { case 1 show ?case
      using snoc.IH(1) props_after_batch(1)[of X b "fold (import_query X) batches g" k] by simp }
  { case 2 show ?case
      using snoc.IH(2) props_after_batch(2)[of X b "fold (import_query X) batches g" k] by simp }
qed

lemma fold_import_concat:
  "fold (import_query X) batches g = import_query X (concat batches) g"
  by (induction batches arbitrary: g) (simp_all add: import_query_Nil import_query_append)

lemma fold_insert_again:
  assumes "set batch \<subseteq> set processed"
  shows "fold (\<lambda>r. fold List.insert (h r)) batch (fold (\<lambda>r. fold List.insert (h r)) processed xs) =
         fold (\<lambda>r. fold List.insert (h r)) processed xs"
  using assms by (intro fold_insert_absorb) (auto simp: fold_insert_set)

lemma import_again_same_nodes:
  assumes "set batch \<subseteq> set processed"
  shows "nodes_and_relationships (import_query X batch (import_query X processed g)) =
         nodes_and_relationships (import_query X processed g)"
  unfolding nodes_and_relationships_def
  by (simp only: import_fields fold_insert_again[OF assms])

lemma load_csv_data_idem:
  "store (load_csv_data X p file (load_csv_data X p file w)) = store (load_csv_data X p file w)"
  by (simp add: load_csv_data_store import_query_idem split: option.splits)

lemma example_rows:
  "map (make_row_data example_ext) (df_rows (fillna0 example_df)) =
    [\<lparr>origin_station_code = ''LAX'', destination_station_code = ''IAX'', flight_number = ''42'',
      fleet_type_description = ''B737-800'', record_locator = ''AB12CD'',
      loyalty_program_level = ''premier gold'', generation = ''Boomer'', feedback_ID = ''F1'',
      food_satisfaction_score = FloatC 2.7, arrival_delay_minutes = FloatC (- 2.7),
      actual_flown_miles = IntC 1200, number_of_legs = FloatC 0, passenger_class = ''Economy''\<rparr>,
     \<lparr>origin_station_code = ''LAX'', destination_station_code = ''EWX'', flight_number = ''19'',
      fleet_type_description = ''A320-200'', record_locator = ''AB12CD'',
      loyalty_program_level = ''premier 1k'', generation = ''Boomer'', feedback_ID = ''F2'',
      food_satisfaction_score = FloatC 4, arrival_delay_minutes = FloatC 15,
      actual_flown_miles = IntC 800, number_of_legs = FloatC 2, passenger_class = ''Business''\<rparr>,
     \<lparr>origin_station_code = ''LAX'', destination_station_code = ''IAX'', flight_number = ''42'',
      fleet_type_description = ''B737-800'', record_locator = ''AB12CD'',
      loyalty_program_level = ''premier gold'', generation = ''Boomer'', feedback_ID = ''F1'',
      food_satisfaction_score = FloatC 2.7, arrival_delay_minutes = FloatC (- 2.7),
      actual_flown_miles = IntC 1200, number_of_legs = FloatC 0, passenger_class = ''Economy''\<rparr>]"
  by (simp add: fillna0_def example_df_def make_row_data_def py_str_def row_of_def fill_value_def
        example_cells1_def example_cells2_def)


lemma import_row_explicit:
  "import_row X row
     \<lparr>airport_nodes = an, flight_nodes = fn, passenger_nodes = pn, journey_nodes = jn,
      passenger_props = pp, journey_props = jp,
      departs_from = df, arrives_at = aa, took = tk, on_flight = onf\<rparr> =
     \<lparr>airport_nodes = List.insert (destination_station_code row) (List.insert (origin_station_code row) an),
      flight_nodes = List.insert (flight_number row, fleet_type_description row) fn,
      passenger_nodes = List.insert (record_locator row) pn,
      journey_nodes = List.insert (feedback_ID row) jn,
      passenger_props = pp(record_locator row \<mapsto> passenger_set row),
      journey_props = jp(feedback_ID row \<mapsto> journey_set X row),
      departs_from = List.insert ((flight_number row, fleet_type_description row), origin_station_code row) df,
      arrives_at = List.insert ((flight_number row, fleet_type_description row), destination_station_code row) aa,
      took = List.insert (record_locator row, feedback_ID row) tk,
      on_flight = List.insert (feedback_ID row, (flight_number row, fleet_type_description row)) onf\<rparr>"
  by (simp add: import_row_def Let_def)

lemma example_store:
  "store (load_csv_data example_ext p (Some example_df) example_world) =
    \<lparr>airport_nodes = [''EWX'', ''IAX'', ''LAX'', ''SAX''],
     flight_nodes = [(''19'', ''A320-200''), (''42'', ''B737-800'')],
     passenger_nodes = [''AB12CD''], journey_nodes = [''F2'', ''F1''],
     passenger_props = [''AB12CD'' \<mapsto> (''premier gold'', ''Boomer'')],
     journey_props = [''F1'' \<mapsto> \<lparr>j_food_satisfaction_score = Some 2, j_arrival_delay_minutes = Some (- 2),
                                  j_actual_flown_miles = Some 1200, j_number_of_legs = Some 0,
                                  j_passenger_class = ''Economy''\<rparr>,
                      ''F2'' \<mapsto> \<lparr>j_food_satisfaction_score = Some 4, j_arrival_delay_minutes = Some 15,
                                  j_actual_flown_miles = Some 800, j_number_of_legs = Some 2,
                                  j_passenger_class = ''Business''\<rparr>],
     departs_from = [((''19'', ''A320-200''), ''LAX''), ((''42'', ''B737-800''), ''LAX'')],
     arrives_at = [((''19'', ''A320-200''), ''EWX''), ((''42'', ''B737-800''), ''IAX'')],
     took = [(''AB12CD'', ''F2''), (''AB12CD'', ''F1'')],
     on_flight = [(''F2'', (''19'', ''A320-200'')), (''F1'', (''42'', ''B737-800''))]\<rparr>"
  apply (simp add: load_csv_data_store example_not_missing example_rows import_query_Cons import_query_Nil)
  apply (simp add: import_row_explicit example_world_def empty_graph_def passenger_set_def journey_set_def trunc_def)
  apply (rule ext)
  apply simp
  done

subsection \<open>Auxiliary facts: batches and the main program\<close>

lemma concat_uniform_length:
  "\<forall>x \<in> set bl. length x = bs \<Longrightarrow> length (concat bl) = length bl * bs"
  by (induction bl) simp_all

lemma batch_loop_trace:
  assumes "0 < bs" and "length b < bs" and "batch_loop X bs t rs i b w = (b', w')"
  shows "\<exists>bl. trace w' = trace w @ map (\<lambda>x. Run (Import x)) bl \<and>
              concat bl @ b' = b @ map (make_row_data X) rs \<and>
              (\<forall>x \<in> set bl. length x = bs) \<and> length b' < bs"
  using assms
proof (induction rs arbitrary: i b w)
  case Nil
  then have "trace w' = trace w @ map (\<lambda>x. Run (Import x)) [] \<and>
             concat [] @ b' = b @ map (make_row_data X) [] \<and>
             (\<forall>x \<in> set ([] :: row_data list list). length x = bs) \<and> length b' < bs"
    by simp
  then show ?case by blast
next
  case (Cons r rs)
  let ?b = "b @ [make_row_data X r]"
  show ?case
  proof (cases "bs \<le> length ?b")
    case True
    with Cons.prems have len: "length ?b = bs" by simp
    from True Cons.prems have
      "batch_loop X bs t rs (i + 1) []
         (print (Processed (i + 1) t) (session_run X (Import ?b) w)) = (b', w')"
      by (simp add: Let_def)
    from Cons.IH[OF Cons.prems(1) _ this] Cons.prems(1) obtain bl where
      bl: "trace w' = trace (print (Processed (i + 1) t) (session_run X (Import ?b) w))
             @ map (\<lambda>x. Run (Import x)) bl"
          "concat bl @ b' = [] @ map (make_row_data X) rs"
          "\<forall>x \<in> set bl. length x = bs" "length b' < bs"
      by auto
    have "trace w' = trace w @ map (\<lambda>x. Run (Import x)) (?b # bl) \<and>
          concat (?b # bl) @ b' = b @ map (make_row_data X) (r # rs) \<and>
          (\<forall>x \<in> set (?b # bl). length x = bs) \<and> length b' < bs"
      using bl len by (simp add: world_ops)
    then show ?thesis by blast
  next
    case False
    with Cons.prems have
      "batch_loop X bs t rs (i + 1) ?b w = (b', w')"
      by (simp add: Let_def)
    from Cons.IH[OF Cons.prems(1) _ this] False show ?thesis by simp
  qed
qed

lemma ceil_div:
  assumes "0 < (bs::nat)" and "r < bs"
  shows "(q * bs + r + (bs - 1)) div bs = q + (if r = 0 then 0 else 1)"
proof (cases "r = 0")
  case True
  have "(q * bs + (bs - 1)) div bs = q + (bs - 1) div bs"
    using assms by (intro div_mult_self3) simp
  moreover have "(bs - 1) div bs = 0" using assms by simp
  ultimately show ?thesis using True by simp
next
  case False
  then obtain r' where r: "r = Suc r'" by (cases r) auto
  from assms have "q * bs + r + (bs - 1) = (q + 1) * bs + r'"
    unfolding r by (cases bs) (simp_all add: algebra_simps)
  then have "(q * bs + r + (bs - 1)) div bs = ((q + 1) * bs + r') div bs" by (rule arg_cong)
  also have "\<dots> = (q + 1) + r' div bs" using assms by (intro div_mult_self3) simp
  also have "r' div bs = 0" using assms r by simp
  finally show ?thesis using False by simp
qed

lemma import_rows_trace:
  assumes "0 < bs"
  shows "\<exists>batches. trace (import_rows X bs rs w) =
             trace w @ [SessionOpen] @ map (\<lambda>b. Run (Import b)) batches @ [SessionClose] \<and>
           concat batches = map (make_row_data X) rs \<and>
           length batches = (length rs + (bs - 1)) div bs \<and>
           (\<forall>b \<in> set batches. 0 < length b \<and> length b \<le> bs) \<and>
           (\<forall>b \<in> set (butlast batches). length b = bs)"
proof -
  obtain b' w' where bl: "batch_loop X bs (length rs) rs 0 [] (emit SessionOpen w) = (b', w')"
    by (cases "batch_loop X bs (length rs) rs 0 [] (emit SessionOpen w)") auto
  from batch_loop_trace[OF assms _ bl] assms obtain bl' where
    t: "trace w' = trace (emit SessionOpen w) @ map (\<lambda>x. Run (Import x)) bl'"
    and c: "concat bl' @ b' = map (make_row_data X) rs"
    and u: "\<forall>x \<in> set bl'. length x = bs" and l: "length b' < bs"
    by auto
  let ?batches = "bl' @ (if b' = [] then [] else [b'])"
  have n: "length rs = length bl' * bs + length b'"
    using arg_cong[OF c, of length] concat_uniform_length[OF u] by simp
  have 1: "trace (import_rows X bs rs w) =
             trace w @ [SessionOpen] @ map (\<lambda>b. Run (Import b)) ?batches @ [SessionClose]"
    using bl t by (simp add: import_rows_def Let_def world_ops)
  have 2: "concat ?batches = map (make_row_data X) rs" using c by auto
  have 3: "length ?batches = (length rs + (bs - 1)) div bs"
    unfolding n using ceil_div[OF assms l, of "length bl'"] by simp
  have 4: "\<forall>b \<in> set ?batches. 0 < length b \<and> length b \<le> bs" using u l assms by auto
  have 5: "\<forall>b \<in> set (butlast ?batches). length b = bs" using u by (auto simp: butlast_append dest: in_set_butlastD)
  from 1 2 3 4 5 show ?thesis by blast
qed

lemma load_csv_data_trace_extends:
  "\<exists>evs. trace (load_csv_data X p file w) = trace w @ evs"
proof (cases "file")
  case None
  then show ?thesis by (simp add: load_csv_data_def world_ops)
next
  case (Some df)
  show ?thesis
  proof (cases "missing_cols df = []")
    case True
    have "0 < batch_size" by (simp add: batch_size_def)
    from import_rows_trace[OF this] obtain batches where
      "trace (import_rows X batch_size (df_rows (fillna0 df))
          (print (FoundRecords (length (df_rows (fillna0 df)))) (print (Reading p) w))) =
        trace (print (FoundRecords (length (df_rows (fillna0 df)))) (print (Reading p) w))
          @ [SessionOpen] @ map (\<lambda>b. Run (Import b)) batches @ [SessionClose]"
      by blast
    with Some True show ?thesis by (simp add: load_csv_data_def Let_def world_ops)
  next
    case False
    with Some show ?thesis by (simp add: load_csv_data_def Let_def world_ops)
  qed
qed

lemma example_big_not_missing: "missing_cols example_big_df = []"
  by (simp add: missing_cols_def example_big_df_def)

lemma main_absent: "main X None csv w = print (ConfigNotFound ''config.txt'') w"
  by (simp add: main_def load_config_def)

lemma run_validation_absent:
  "run_validation X None answers w = Inr (print (ConfigNotFound ''config.txt'') w)"
  by (simp add: run_validation_def load_config_def)

lemma load_csv_data_fails:
  assumes "case csv of None \<Rightarrow> True | Some df \<Rightarrow> missing_cols df \<noteq> []"
  shows "load_csv_data X p csv w =
           w\<lparr>out := out w @ (case csv of None \<Rightarrow> [CsvNotFound p]
                 | Some df \<Rightarrow> [Reading p, MissingColumns (missing_cols df),
                                AvailableColumns (df_columns df)])\<rparr>"
  using assms by (simp add: load_csv_data_def Let_def world_ops split: option.splits)

lemma example_config_keys:
  "map_of (config_lines example_config []) ''URI'' = Some ''bolt://localhost:7687?db=a''"
  "map_of (config_lines example_config []) ''USERNAME'' = Some ''neo4j''"
  "map_of (config_lines example_config []) ''PASSWORD'' = Some ''secret''"
  by (simp_all add: example_config_lines)

lemma example_missing_columns: "df_columns example_df_missing = butlast required_cols"
  by (simp add: example_df_missing_def)

lemma example_import_airports:
  "airport_nodes (import_query example_ext
      (map (make_row_data example_ext) (df_rows (fillna0 example_df))) empty_graph) =
     [''EWX'', ''IAX'', ''LAX'']"
  by (simp add: example_rows import_query_Cons import_query_Nil empty_graph_def import_row_explicit)

lemma batch_loop_small:
  "length b + length rs < bs \<Longrightarrow>
   batch_loop X bs t rs i b w = (b @ map (make_row_data X) rs, w)"
  by (induction rs arbitrary: i b w) (simp_all add: Let_def)

lemma import_rows_small:
  assumes "rs \<noteq> []" and "length rs < bs"
  shows "import_rows X bs rs w =
           emit SessionClose (print (Processed (length rs) (length rs))
             (session_run X (Import (map (make_row_data X) rs)) (emit SessionOpen w)))"
  using assms by (simp add: import_rows_def Let_def batch_loop_small)

lemma example_config_batch_lines:
  "config_lines example_config_batch [] =
     [(''URI'', ''bolt://localhost:7687?db=a''), (''USERNAME'', ''neo4j''),
      (''PASSWORD'', ''secret''), (''BATCH_SIZE'', ''1'')]"
  by (simp add: example_config_batch_def example_config_def strip_def is_space_def split_eq_def)

lemma example_load_trace:
  "trace (load_csv_data example_ext p (Some example_df) w) =
     trace w @ [SessionOpen, Run (Import example_records), SessionClose]"
proof -
  have r: "df_rows (fillna0 example_df) \<noteq> []" "length (df_rows (fillna0 example_df)) < batch_size"
    by (simp_all add: fillna0_def example_df_def batch_size_def)
  show ?thesis
    by (simp add: load_csv_data_def Let_def example_not_missing import_rows_small[OF r]
          world_ops example_records_def)
qed

subsection \<open>Auxiliary facts: the validator\<close>

lemma field_ok_other: "\<not> is_float e \<Longrightarrow> field_ok a e \<longleftrightarrow> py_eq a e"
  by (simp add: field_ok_def)

lemma fields_loop_eq:
  "fields_loop i act_row exp_row all_match w =
     (all_match \<and> row_matches act_row exp_row, w\<lparr>out := out w @ row_report i act_row exp_row\<rparr>)"
proof (induction exp_row)
  case Nil
  then show ?case by (simp add: row_matches_def row_report_def)
next
  case (Cons kv rest)
  obtain key exp_val where kv: "kv = (key, exp_val)" by (cases kv) auto
  show ?case
  proof (cases "field_ok (dict_get act_row key) exp_val")
    case True
    with Cons kv show ?thesis by (simp add: row_matches_def row_report_def)
  next
    case False
    with kv show ?thesis by (simp add: row_matches_def row_report_def print_def)
  qed
qed

lemma rows_loop_eq:
  "rows_loop i zs all_match w =
     (all_match \<and> list_all (\<lambda>(act_row, exp_row). row_matches act_row exp_row) zs,
      w\<lparr>out := out w @ concat (map (\<lambda>(j, act_row, exp_row). row_report j act_row exp_row)
                                    (enumerate i zs))\<rparr>)"
proof (induction zs arbitrary: i all_match w)
  case Nil
  then show ?case by simp
next
  case (Cons z zs)
  obtain act_row exp_row where z: "z = (act_row, exp_row)" by (cases z) auto
  show ?case unfolding z by (simp add: fields_loop_eq Cons.IH conj_assoc)
qed

lemma compare_results_eq:
  "compare_results q actual expected w =
     (if length actual \<noteq> length expected
      then (Some False,
            w\<lparr>out := out w @ [Validating q, LengthMismatch (length expected) (length actual)]\<rparr>)
      else (None,
            w\<lparr>out := out w @ [Validating q] @ all_reports actual expected @
                    [if all_rows_match actual expected then Pass else Fail]\<rparr>))"
  by (simp add: compare_results_def Let_def rows_loop_eq print_def all_reports_def all_rows_match_def)

subsection \<open>Auxiliary facts: rounding to double precision\<close>

lemma pow2_le_mult: "1 \<le> x \<Longrightarrow> (2::real) powi e \<le> x * 2 powi e"
proof -
  assume "1 \<le> x"
  then have "1 * (2::real) powi e \<le> x * 2 powi e" by (intro mult_right_mono) simp_all
  then show ?thesis by simp
qed

lemma binary_exponent_ge1:
  "1 \<le> x \<Longrightarrow> 2 powi (binary_exponent n e x) \<le> x * 2 powi e"
proof (induction n arbitrary: e x)
  case 0
  then show ?case by (simp add: pow2_le_mult)
next
  case (Suc n)
  show ?case
  proof (cases "2 \<le> x")
    case True
    then have "1 \<le> x / 2" by simp
    from Suc.IH[OF this, of "e + 1"] True show ?thesis
      by (simp add: power_int_add)
  next
    case False
    with Suc.prems show ?thesis by (simp add: pow2_le_mult)
  qed
qed

lemma binary_exponent_lt2:
  "0 < x \<Longrightarrow> x < 2 \<Longrightarrow> - 1022 \<le> e \<Longrightarrow> nat (e + 1022) \<le> n \<Longrightarrow>
   2 powi (binary_exponent n e x) \<le> x * 2 powi e \<or> binary_exponent n e x = - 1022"
proof (induction n arbitrary: e x)
  case 0
  then show ?case by simp
next
  case (Suc n)
  show ?case
  proof (cases "x < 1 \<and> - 1022 < e")
    case True
    with Suc.prems have "0 < 2 * x" "2 * x < 2" "- 1022 \<le> e - 1" "nat (e - 1 + 1022) \<le> n"
      by simp_all
    from Suc.IH[OF this] True Suc.prems(2) show ?thesis
      by (simp add: power_int_diff)
  next
    case False
    with Suc.prems show ?thesis by (auto simp: pow2_le_mult)
  qed
qed

lemma binary_exponent_bound:
  assumes "0 < x"
  shows "2 powi (binary_exponent 2200 0 x) \<le> x \<or> binary_exponent 2200 0 x = - 1022"
proof (cases "1 \<le> x")
  case True
  from binary_exponent_ge1[OF this, of 2200 0] show ?thesis by simp
next
  case False
  with assms binary_exponent_lt2[of x 0 2200] show ?thesis by simp
qed

lemma round_half_even_error: "\<bar>of_int (round_half_even q) - q\<bar> \<le> 1 / 2"
  unfolding round_half_even_def Let_def by (auto; linarith)

lemma round_to_double_error:
  "\<bar>round_to_double v - v\<bar> \<le> \<bar>v\<bar> / 2 ^ 53 + 1 / 2 ^ 1075"
proof (cases "v = 0")
  case True
  then show ?thesis by (simp add: round_to_double_def round_half_even_def)
next
  case False
  define k where "k = binary_exponent 2200 0 \<bar>v\<bar>"
  define u :: real where "u = 2 powi (k - 52)"
  have u: "0 < u" by (simp add: u_def)
  have fl: "round_to_double v = of_int (round_half_even (v / u)) * u"
    by (simp add: round_to_double_def ulp_exponent_def u_def k_def)
  have "\<bar>round_to_double v - v\<bar> = \<bar>of_int (round_half_even (v / u)) - v / u\<bar> * u"
  proof -
    have "round_to_double v - v = (of_int (round_half_even (v / u)) - v / u) * u"
      using u by (simp add: fl field_simps)
    then show ?thesis using u by (simp add: abs_mult)
  qed
  also have "\<dots> \<le> 1 / 2 * u"
    using u round_half_even_error[of "v / u"] by (intro mult_right_mono) simp_all
  finally have e: "\<bar>round_to_double v - v\<bar> \<le> u / 2" by simp
  have half: "u / 2 = 2 powi k / 2 ^ 53"
    by (simp add: u_def power_int_diff)
  from False have "0 < \<bar>v\<bar>" by simp
  from binary_exponent_bound[OF this] have "2 powi k \<le> \<bar>v\<bar> \<or> k = - 1022" by (simp add: k_def)
  then show ?thesis
  proof
    assume "2 powi k \<le> \<bar>v\<bar>"
    then have "u / 2 \<le> \<bar>v\<bar> / 2 ^ 53" by (simp add: half divide_right_mono)
    moreover have "0 \<le> 1 / (2::real) ^ 1075" by simp
    ultimately show ?thesis using e by linarith
  next
    assume "k = - 1022"
    then have "u / 2 = 1 / 2 ^ 1075" by (simp add: u_def power_int_minus_divide)
    moreover have "0 \<le> \<bar>v\<bar> / 2 ^ 53" by simp
    ultimately show ?thesis using e by linarith
  qed
qed

lemma binary_exponent_numeral:
  "binary_exponent (numeral n) e x =
     (if 2 \<le> x then binary_exponent (pred_numeral n) (e + 1) (x / 2)
      else if x < 1 \<and> - 1022 < e then binary_exponent (pred_numeral n) (e - 1) (2 * x)
      else e)"
  by (simp add: numeral_eq_Suc)

lemmas double_eval =
  round_to_double_def ulp_exponent_def round_half_even_def binary_exponent_numeral Let_def

lemma rel_tol_value: "rel_tol_1e_9 = 4835703278458517 / 2 ^ 82"
  by (simp add: rel_tol_1e_9_def float_literal_def double_eval)

lemma rounded_abs_upper: "\<bar>round_to_double v\<bar> \<le> \<bar>v\<bar> + \<bar>v\<bar> / 2 ^ 53 + 1 / 2 ^ 1075"
  using round_to_double_error[of v] by linarith

lemma rounded_abs_lower: "\<bar>v\<bar> - \<bar>v\<bar> / 2 ^ 53 - 1 / 2 ^ 1075 \<le> \<bar>round_to_double v\<bar>"
  using round_to_double_error[of v] by linarith

lemma abs_rel_tol_mult: "\<bar>rel_tol_1e_9 * x\<bar> = 4835703278458517 / 2 ^ 82 * \<bar>x\<bar>"
  by (simp add: rel_tol_value abs_mult)

lemma close_arith:
  fixes X Y D B :: real
  assumes "X \<le> D + D / 2 ^ 53 + 1 / 2 ^ 1075"
      and "4835703278458517 / 2 ^ 82 * B - (4835703278458517 / 2 ^ 82 * B) / 2 ^ 53 - 1 / 2 ^ 1075 \<le> Y"
      and "D \<le> (1 - 1 / 2 ^ 50) / 10 ^ 9 * B"
      and "1 / 2 ^ 900 \<le> B"
  shows "X \<le> Y"
  using assms by simp


lemma far_arith:
  fixes X Y D B M :: real
  assumes "D - D / 2 ^ 53 - 1 / 2 ^ 1075 \<le> X"
      and "Y \<le> 4835703278458517 / 2 ^ 82 * B + (4835703278458517 / 2 ^ 82 * B) / 2 ^ 53 + 1 / 2 ^ 1075"
      and "X \<le> Y" and "B \<le> M" and "1 / 2 ^ 900 \<le> M"
  shows "D \<le> (1 + 1 / 2 ^ 50) / 10 ^ 9 * M"
  using assms by simp

lemma isclose_complete:
  assumes M: "1 / 2 ^ 900 \<le> max \<bar>a\<bar> \<bar>b\<bar>"
      and D: "\<bar>a - b\<bar> \<le> (1 - 1 / 2 ^ 50) / 10 ^ 9 * max \<bar>a\<bar> \<bar>b\<bar>"
  shows "isclose a b rel_tol_1e_9"
proof -
  have X: "\<bar>round_to_double (b - a)\<bar> \<le> \<bar>a - b\<bar> + \<bar>a - b\<bar> / 2 ^ 53 + 1 / 2 ^ 1075"
    using rounded_abs_upper[of "b - a"] by (simp add: abs_minus_commute)
  have Y: "4835703278458517 / 2 ^ 82 * \<bar>x\<bar> - (4835703278458517 / 2 ^ 82 * \<bar>x\<bar>) / 2 ^ 53
             - 1 / 2 ^ 1075 \<le> \<bar>round_to_double (rel_tol_1e_9 * x)\<bar>" for x
    using rounded_abs_lower[of "rel_tol_1e_9 * x"] by (simp only: abs_rel_tol_mult)
  show ?thesis
  proof (cases "\<bar>a\<bar> \<le> \<bar>b\<bar>")
    case True
    then have m: "max \<bar>a\<bar> \<bar>b\<bar> = \<bar>b\<bar>" by simp
    from close_arith[OF X Y[of b] D[unfolded m] M[unfolded m]]
    show ?thesis by (simp add: isclose_def Let_def)
  next
    case False
    then have m: "max \<bar>a\<bar> \<bar>b\<bar> = \<bar>a\<bar>" by simp
    from close_arith[OF X Y[of a] D[unfolded m] M[unfolded m]]
    show ?thesis by (simp add: isclose_def Let_def)
  qed
qed

lemma isclose_sound:
  assumes M: "1 / 2 ^ 900 \<le> max \<bar>a\<bar> \<bar>b\<bar>"
      and c: "isclose a b rel_tol_1e_9"
  shows "\<bar>a - b\<bar> \<le> (1 + 1 / 2 ^ 50) / 10 ^ 9 * max \<bar>a\<bar> \<bar>b\<bar>"
proof (cases "a = b")
  case True
  have "0 \<le> (1 + 1 / 2 ^ 50) / 10 ^ 9 * max \<bar>a\<bar> \<bar>b\<bar>" by simp
  with True show ?thesis by simp
next
  case False
  have X: "\<bar>a - b\<bar> - \<bar>a - b\<bar> / 2 ^ 53 - 1 / 2 ^ 1075 \<le> \<bar>round_to_double (b - a)\<bar>"
    using rounded_abs_lower[of "b - a"] by (simp add: abs_minus_commute)
  have Y: "\<bar>round_to_double (rel_tol_1e_9 * x)\<bar> \<le>
             4835703278458517 / 2 ^ 82 * \<bar>x\<bar> + (4835703278458517 / 2 ^ 82 * \<bar>x\<bar>) / 2 ^ 53
             + 1 / 2 ^ 1075" for x
    using rounded_abs_upper[of "rel_tol_1e_9 * x"] by (simp only: abs_rel_tol_mult)
  from c False consider
      (b) "\<bar>round_to_double (b - a)\<bar> \<le> \<bar>round_to_double (rel_tol_1e_9 * b)\<bar>"
    | (a) "\<bar>round_to_double (b - a)\<bar> \<le> \<bar>round_to_double (rel_tol_1e_9 * a)\<bar>"
    | (z) "\<bar>round_to_double (b - a)\<bar> \<le> 0"
    by (auto simp: isclose_def Let_def)
  then show ?thesis
  proof cases
    case b
    have "\<bar>b\<bar> \<le> max \<bar>a\<bar> \<bar>b\<bar>" by simp
    from far_arith[OF X Y[of b] b this M] show ?thesis .
  next
    case a
    have "\<bar>a\<bar> \<le> max \<bar>a\<bar> \<bar>b\<bar>" by simp
    from far_arith[OF X Y[of a] a this M] show ?thesis .
  next
    case z
    have "0 \<le> \<bar>round_to_double (rel_tol_1e_9 * b)\<bar>" by simp
    with z have "\<bar>round_to_double (b - a)\<bar> \<le> \<bar>round_to_double (rel_tol_1e_9 * b)\<bar>"
      by linarith
    moreover have "\<bar>b\<bar> \<le> max \<bar>a\<bar> \<bar>b\<bar>" by simp
    ultimately show ?thesis using far_arith[OF X Y[of b] _ _ M] by blast
  qed
qed

lemma boundary_pair_doubles:
  "round_to_double 8499999991499999 = 8499999991499999"
  "round_to_double 8499999999999999 = 8499999999999999"
  by (simp_all add: double_eval)

lemma boundary_pair_close: "isclose 8499999991499999 8499999999999999 rel_tol_1e_9"
  by (simp add: isclose_def rel_tol_value double_eval)

lemma boundary_pair_exact:
  "\<not> \<bar>8499999991499999 - 8499999999999999 :: real\<bar>
       \<le> 1 / 10 ^ 9 * max \<bar>8499999991499999\<bar> \<bar>8499999999999999\<bar>"
  by simp

lemma literal_values:
  "float_literal 2.7911646586345387 = 6285144058278103 / 2 ^ 51"
  "float_literal 2.791164658634539 = 6285144058278104 / 2 ^ 51"
  "float_literal 2.80 = 3152519739159347 / 2 ^ 50"
  "float_literal 2.79 = 3141260740090921 / 2 ^ 50"
  by (simp_all add: float_literal_def double_eval)

lemma binary_exponent_down: "x < 2 \<Longrightarrow> binary_exponent n e x \<le> e"
proof (induction n arbitrary: e x)
  case 0
  then show ?case by simp
next
  case (Suc n)
  show ?case
  proof (cases "x < 1 \<and> - 1022 < e")
    case True
    then have "2 * x < 2" by simp
    from Suc.IH[OF this, of "e - 1"] True Suc.prems show ?thesis by simp
  next
    case False
    with Suc.prems show ?thesis by auto
  qed
qed

lemma binary_exponent_upper:
  "x < 2 ^ Suc m \<Longrightarrow> binary_exponent n e x \<le> e + int m"
proof (induction n arbitrary: e x m)
  case 0
  then show ?case by simp
next
  case (Suc n)
  show ?case
  proof (cases "2 \<le> x")
    case True
    with Suc.prems obtain m' where m: "m = Suc m'" by (cases m) auto
    with Suc.prems have "x / 2 < 2 ^ Suc m'" by simp
    from Suc.IH[OF this, of "e + 1"] True m show ?thesis by simp
  next
    case False
    then have "x < 2" by simp
    from binary_exponent_down[OF this, of "Suc n" e] show ?thesis by simp
  qed
qed

lemma round_half_even_int: "round_half_even (of_int n) = n"
  by (simp add: round_half_even_def)

lemma small_int_exact:
  assumes "\<bar>i\<bar> < 2 ^ 53"
  shows "round_to_double (of_int i) = of_int i"
proof -
  define k where "k = binary_exponent 2200 0 \<bar>of_int i :: real\<bar>"
  have "\<bar>of_int i :: real\<bar> < 2 ^ Suc 52"
  proof -
    have "(of_int \<bar>i\<bar> :: real) < of_int (2 ^ 53)" using assms by (simp only: of_int_less_iff)
    then show ?thesis by simp
  qed
  from binary_exponent_upper[OF this, of 2200 0] have k: "k \<le> 52" by (simp add: k_def)
  define j where "j = nat (52 - k)"
  have p: "(2::real) powi (k - 52) = 1 / 2 ^ j"
  proof -
    have "k - 52 = - int j" using k by (simp add: j_def)
    then show ?thesis by (simp add: power_int_minus_divide)
  qed
  have "round_to_double (of_int i) =
          of_int (round_half_even (of_int i / (1 / 2 ^ j))) * (1 / 2 ^ j)"
    by (simp add: round_to_double_def ulp_exponent_def k_def[symmetric] p)
  also have "of_int i / (1 / 2 ^ j) = (of_int (i * 2 ^ j) :: real)" by simp
  also have "round_half_even (of_int (i * 2 ^ j)) = i * 2 ^ j" by (rule round_half_even_int)
  finally show ?thesis by simp
qed

lemma field_ok_float:
  "field_ok a (PFloat e) \<longleftrightarrow> is_int_or_float a \<and> isclose (float_of a) e rel_tol_1e_9"
proof (cases "is_int_or_float a")
  case True
  then show ?thesis by (simp add: field_ok_def)
next
  case False
  then have "\<not> py_eq a (PFloat e)" by (cases a) simp_all
  with False show ?thesis by (simp add: field_ok_def)
qed

lemma isclose_unfold:
  "isclose x y rel_tol_1e_9 \<longleftrightarrow>
     x = y \<or>
     \<bar>round_to_double (y - x)\<bar> \<le> \<bar>round_to_double (rel_tol_1e_9 * y)\<bar> \<or>
     \<bar>round_to_double (y - x)\<bar> \<le> \<bar>round_to_double (rel_tol_1e_9 * x)\<bar> \<or>
     round_to_double (y - x) = 0"
  by (simp add: isclose_def Let_def)

lemma field_ok_floats: "field_ok (PFloat x) (PFloat y) = isclose x y rel_tol_1e_9"
  by (simp add: field_ok_float)

lemma far_arith2:
  fixes M D :: real
  assumes "D \<le> (1 + 1 / 2 ^ 50) / 10 ^ 9 * M" and "M \<le> 3" and "1 / 200 \<le> D"
  shows False
  using assms by simp

lemma far_apart:
  assumes "\<bar>x\<bar> \<le> 3" and "\<bar>y\<bar> \<le> 3" and "1 / 200 \<le> \<bar>x - y\<bar>"
  shows "\<not> field_ok (PFloat x) (PFloat y)"
proof
  assume "field_ok (PFloat x) (PFloat y)"
  then have c: "isclose x y rel_tol_1e_9" by (simp only: field_ok_floats)
  have m: "max \<bar>x\<bar> \<bar>y\<bar> \<le> 3" using assms(1,2) by simp
  have "1 / 200 \<le> \<bar>x\<bar> + \<bar>y\<bar>" using assms(3) by linarith
  then have "1 / 400 \<le> max \<bar>x\<bar> \<bar>y\<bar>" by linarith
  moreover have "1 / 2 ^ 900 \<le> (1 / 400 :: real)" by simp
  ultimately have "1 / 2 ^ 900 \<le> max \<bar>x\<bar> \<bar>y\<bar>" by (rule order_trans[rotated])
  from far_arith2[OF isclose_sound[OF this c] m assms(3)] show False .
qed

lemma boundary_report:
  "out (snd (compare_results 5 [[(''v'', PFloat 8499999991499999)]]
                               [[(''v'', PFloat 8499999999999999)]] example_world)) =
     [Validating 5, Pass]"
  by (simp add: compare_results_eq all_reports_def all_rows_match_def row_report_def
        row_matches_def example_world_def dict_get_def enumerate_eq_zip field_ok_float
        boundary_pair_close)

lemma small_int_converts: "\<bar>i\<bar> < 2 ^ 53 \<longrightarrow> converts (PInt i) \<and> float_of (PInt i) = of_int i"
proof
  assume i: "\<bar>i\<bar> < 2 ^ 53"
  then have e: "round_to_double (of_int i) = of_int i" by (rule small_int_exact)
  have "(of_int \<bar>i\<bar> :: real) < of_int (2 ^ 53)" using i by (simp only: of_int_less_iff)
  then have "\<bar>of_int i :: real\<bar> < 2 ^ 53" by simp
  also have "(2::real) ^ 53 < 2 ^ 1024" by simp
  finally show "converts (PInt i) \<and> float_of (PInt i) = of_int i" by (simp add: e)
qed

lemma fields_loop_float: "fields_loop n act_row [(key, PFloat e)] True w =
        (if is_int_or_float (dict_get act_row key) \<and>
            isclose (float_of (dict_get act_row key)) e rel_tol_1e_9
         then (True, w)
         else (False, print (Mismatch n key (PFloat e) (dict_get act_row key)) w))"
  by (simp only: fields_loop.simps Let_def field_ok_float[symmetric]) simp

lemma close_enough_accepted: "1 / 2 ^ 900 \<le> max \<bar>x\<bar> \<bar>y\<bar> \<and> \<bar>x - y\<bar> \<le> (1 - 1 / 2 ^ 50) / 10 ^ 9 * max \<bar>x\<bar> \<bar>y\<bar>
      \<longrightarrow> field_ok (PFloat x) (PFloat y)"
  unfolding field_ok_floats using isclose_complete[of x y] by blast

lemma accepted_is_close: "1 / 2 ^ 900 \<le> max \<bar>x\<bar> \<bar>y\<bar> \<and> field_ok (PFloat x) (PFloat y)
      \<longrightarrow> \<bar>x - y\<bar> \<le> (1 + 1 / 2 ^ 50) / 10 ^ 9 * max \<bar>x\<bar> \<bar>y\<bar>"
  unfolding field_ok_floats using isclose_sound[of x y] by blast

lemma example_pair_accepted: "field_ok (PFloat (float_literal 2.791164658634539))
             (PFloat (float_literal 2.7911646586345387))"
  unfolding field_ok_floats literal_values
  by (rule isclose_complete) simp_all

subsection \<open>Auxiliary facts: coercion of the journey fields\<close>








subsection \<open>Claims\<close>

text \<open>
  C1. Loading the same data twice gives the same graph, hence the same node and
  relationship counts, as loading it once: running the import query again over a batch
  already processed changes nothing, running it over any rows that were processed
  before creates no node and no relationship, and running the whole load again changes
  nothing.
  After a sequence of batches, the properties of a Passenger or a Journey are those
  written by the last batch that holds its key (what that batch alone would write), and
  they are untouched when no batch holds it; within a batch, they are those of the last
  row with the key.
\<close>

theorem reload_is_idempotent:
  "import_query X batch (import_query X batch g) = import_query X batch g \<and>
   (set batch \<subseteq> set processed \<longrightarrow>
      nodes_and_relationships (import_query X batch (import_query X processed g)) =
      nodes_and_relationships (import_query X processed g)) \<and>
   store (load_csv_data X p file (load_csv_data X p file w)) = store (load_csv_data X p file w) \<and>
   node_count (store (load_csv_data X p file (load_csv_data X p file w))) =
     node_count (store (load_csv_data X p file w)) \<and>
   relationship_count (store (load_csv_data X p file (load_csv_data X p file w))) =
     relationship_count (store (load_csv_data X p file w)) \<and>
   passenger_props (fold (import_query X) batches g) k =
     (case find (\<lambda>b. k \<in> record_locator ` set b) (rev batches) of
        None \<Rightarrow> passenger_props g k
      | Some b \<Rightarrow> passenger_props (import_query X b empty_graph) k) \<and>
   journey_props (fold (import_query X) batches g) k =
     (case find (\<lambda>b. k \<in> feedback_ID ` set b) (rev batches) of
        None \<Rightarrow> journey_props g k
      | Some b \<Rightarrow> journey_props (import_query X b empty_graph) k) \<and>
   passenger_props (import_query X batch g) k =
     (case find (\<lambda>r. record_locator r = k) (rev batch) of
        None \<Rightarrow> passenger_props g k | Some r \<Rightarrow> Some (passenger_set r)) \<and>
   journey_props (import_query X batch g) k =
     (case find (\<lambda>r. feedback_ID r = k) (rev batch) of
        None \<Rightarrow> journey_props g k | Some r \<Rightarrow> Some (journey_set X r))"
proof -
  have 1: "passenger_props (import_query X batch g) k =
     (case find (\<lambda>r. record_locator r = k) (rev batch) of
        None \<Rightarrow> passenger_props g k | Some r \<Rightarrow> Some (passenger_set r))"
    by (simp only: passenger_props_import fold_upd_last)
  have 2: "journey_props (import_query X batch g) k =
     (case find (\<lambda>r. feedback_ID r = k) (rev batch) of
        None \<Rightarrow> journey_props g k | Some r \<Rightarrow> Some (journey_set X r))"
    by (simp only: journey_props_import fold_upd_last)
  have 3: "node_count (store (load_csv_data X p file (load_csv_data X p file w))) =
     node_count (store (load_csv_data X p file w))"
    "relationship_count (store (load_csv_data X p file (load_csv_data X p file w))) =
     relationship_count (store (load_csv_data X p file w))"
    by (simp_all only: load_csv_data_idem)
  show ?thesis
    by (intro conjI impI)
       (rule import_query_idem import_again_same_nodes load_csv_data_idem 3
          props_after_batches 1 2 | assumption)+
qed

theorem reload_witness:
  "set (take 1 example_records) \<subseteq> set example_records \<and>
   nodes_and_relationships
     (import_query example_ext (take 1 example_records)
        (import_query example_ext example_records (store example_world))) =
     (([''EWX'', ''IAX'', ''LAX'', ''SAX''], [(''19'', ''A320-200''), (''42'', ''B737-800'')],
       [''AB12CD''], [''F2'', ''F1'']),
      ([((''19'', ''A320-200''), ''LAX''), ((''42'', ''B737-800''), ''LAX'')],
       [((''19'', ''A320-200''), ''EWX''), ((''42'', ''B737-800''), ''IAX'')],
       [(''AB12CD'', ''F2''), (''AB12CD'', ''F1'')],
       [(''F2'', (''19'', ''A320-200'')), (''F1'', (''42'', ''B737-800''))])) \<and>
   node_count (store (load_csv_data example_ext ''f.csv'' (Some example_df)
      (load_csv_data example_ext ''f.csv'' (Some example_df) example_world))) = 9 \<and>
   relationship_count (store (load_csv_data example_ext ''f.csv'' (Some example_df)
      (load_csv_data example_ext ''f.csv'' (Some example_df) example_world))) = 8"
proof -
  note t = reload_is_idempotent
             [of example_ext "take 1 example_records" "store example_world" example_records
                 "''f.csv''" "Some example_df" example_world "[]" "''F1''"]
  have s: "set (take 1 example_records) \<subseteq> set example_records" by (rule set_take_subset)
  have e: "import_query example_ext example_records (store example_world) =
           store (load_csv_data example_ext ''f.csv'' (Some example_df) example_world)"
    by (simp add: load_csv_data_store example_not_missing example_records_def)
  from t s have
    "nodes_and_relationships
       (import_query example_ext (take 1 example_records)
          (import_query example_ext example_records (store example_world))) =
     nodes_and_relationships (import_query example_ext example_records (store example_world))"
    by blast
  then have 1: "nodes_and_relationships
     (import_query example_ext (take 1 example_records)
        (import_query example_ext example_records (store example_world))) =
     (([''EWX'', ''IAX'', ''LAX'', ''SAX''], [(''19'', ''A320-200''), (''42'', ''B737-800'')],
       [''AB12CD''], [''F2'', ''F1'']),
      ([((''19'', ''A320-200''), ''LAX''), ((''42'', ''B737-800''), ''LAX'')],
       [((''19'', ''A320-200''), ''EWX''), ((''42'', ''B737-800''), ''IAX'')],
       [(''AB12CD'', ''F2''), (''AB12CD'', ''F1'')],
       [(''F2'', (''19'', ''A320-200'')), (''F1'', (''42'', ''B737-800''))]))"
    by (simp only: e example_store) (simp add: nodes_and_relationships_def)
  from t have 2:
    "node_count (store (load_csv_data example_ext ''f.csv'' (Some example_df)
      (load_csv_data example_ext ''f.csv'' (Some example_df) example_world))) = 9"
    "relationship_count (store (load_csv_data example_ext ''f.csv'' (Some example_df)
      (load_csv_data example_ext ''f.csv'' (Some example_df) example_world))) = 8"
    by (simp_all add: example_store node_count_def relationship_count_def)
  from s 1 2 show ?thesis by (intro conjI)
qed

text \<open>
  C6, as stated, fails in one part: the batch size cannot be configured. It is the
  constant 500 of \<^verbatim>\<open>load_csv_data\<close>, which takes no such argument, and the main
  program reads only URI, USERNAME and PASSWORD from the configuration. Here the
  configuration asks for batches of one record; the run is the same as without that
  line, and the three records go to the store in one transaction, not in three.
\<close>

theorem batch_size_not_configurable_counterexample:
  "map_of (config_lines example_config_batch []) ''BATCH_SIZE'' = Some ''1'' \<and>
   length example_records = 3 \<and>
   main example_ext (Some example_config_batch) (Some example_df) example_world =
     main example_ext (Some example_config) (Some example_df) example_world \<and>
   trace (main example_ext (Some example_config_batch) (Some example_df) example_world) =
     [DriverCreate ''bolt://localhost:7687?db=a'' ''neo4j'' ''secret'',
      SessionOpen, Run ClearAll, SessionClose,
      SessionOpen, Run (CreateConstraint ''passenger_id''),
      Run (CreateConstraint ''journey_id''), Run (CreateConstraint ''airport_id''),
      Run (CreateIndex ''flight_idx''), SessionClose,
      SessionOpen, Run (Import example_records), SessionClose, DriverClose]"
proof -
  have k: "map_of (config_lines example_config_batch []) ''URI'' = Some ''bolt://localhost:7687?db=a''"
    "map_of (config_lines example_config_batch []) ''USERNAME'' = Some ''neo4j''"
    "map_of (config_lines example_config_batch []) ''PASSWORD'' = Some ''secret''"
    by (simp_all add: example_config_batch_lines)
  have 1: "map_of (config_lines example_config_batch []) ''BATCH_SIZE'' = Some ''1''"
    by (simp add: example_config_batch_lines)
  have 2: "length example_records = 3" by (simp add: example_records_def fillna0_def example_df_def)
  have 3: "main example_ext (Some example_config_batch) (Some example_df) example_world =
     main example_ext (Some example_config) (Some example_df) example_world"
    by (simp only: main_ok[OF k] main_ok[OF example_config_keys])
  have 4: "trace (main example_ext (Some example_config_batch) (Some example_df) example_world) =
     [DriverCreate ''bolt://localhost:7687?db=a'' ''neo4j'' ''secret'',
      SessionOpen, Run ClearAll, SessionClose,
      SessionOpen, Run (CreateConstraint ''passenger_id''),
      Run (CreateConstraint ''journey_id''), Run (CreateConstraint ''airport_id''),
      Run (CreateIndex ''flight_idx''), SessionClose,
      SessionOpen, Run (Import example_records), SessionClose, DriverClose]"
    unfolding main_ok[OF k]
    by (simp add: example_load_trace prepare_world close_def world_ops example_world_def)
  from 1 2 3 4 show ?thesis by (intro conjI)
qed

text \<open>
  C6, amended. The loader gathers the row records into batches of the fixed size 500
  and runs the import query once for each full batch and once more for a non-empty
  rest. For a frame of \<open>n\<close> rows with all required columns, the statements of the load
  are \<open>\<lceil>n / 500\<rceil>\<close> import transactions inside one session; the batches are
  consecutive pieces of the records in input order, none empty, none longer than 500,
  and all but the last of exactly 500. Nothing in the configuration changes this: the
  run depends on the configuration only through the values of its three keys.
\<close>

theorem load_issues_one_transaction_per_batch_of_500:
  assumes "missing_cols df = []"
  shows "batch_size = 500 \<and>
         (\<exists>batches.
            trace (load_csv_data X p (Some df) w) =
              trace w @ [SessionOpen] @ map (\<lambda>b. Run (Import b)) batches @ [SessionClose] \<and>
            concat batches = map (make_row_data X) (df_rows (fillna0 df)) \<and>
            length batches = (length (df_rows df) + 499) div 500 \<and>
            (\<forall>b \<in> set batches. 0 < length b \<and> length b \<le> 500) \<and>
            (\<forall>b \<in> set (butlast batches). length b = 500)) \<and>
         (map_of (config_lines lines []) ''URI'' = Some uri \<and>
          map_of (config_lines lines []) ''USERNAME'' = Some user \<and>
          map_of (config_lines lines []) ''PASSWORD'' = Some password \<longrightarrow>
            main X (Some lines) csv w' =
              print Success (close (load_csv_data X ''Airline_surveys_sample.csv'' csv
                (create_constraints X (clear_database X (builder_init uri user password w'))))))"
proof -
  let ?rs = "df_rows (fillna0 df)"
  let ?w = "print (FoundRecords (length ?rs)) (print (Reading p) w)"
  have len: "length ?rs = length (df_rows df)" by (simp add: fillna0_def)
  have "0 < batch_size" by (simp add: batch_size_def)
  from import_rows_trace[OF this, of X ?rs ?w]
  obtain batches where b:
    "trace (import_rows X batch_size ?rs ?w) =
       trace ?w @ [SessionOpen] @ map (\<lambda>b. Run (Import b)) batches @ [SessionClose]"
    "concat batches = map (make_row_data X) ?rs"
    "length batches = (length ?rs + (batch_size - 1)) div batch_size"
    "\<forall>b \<in> set batches. 0 < length b \<and> length b \<le> batch_size"
    "\<forall>b \<in> set (butlast batches). length b = batch_size"
    by blast
  have "trace (load_csv_data X p (Some df) w) =
          trace w @ [SessionOpen] @ map (\<lambda>b. Run (Import b)) batches @ [SessionClose]"
    using assms b(1) by (simp add: load_csv_data_def Let_def world_ops)
  moreover have "length batches = (length (df_rows df) + 499) div 500"
    using b(3) len by (simp add: batch_size_def)
  moreover have "\<forall>b \<in> set batches. 0 < length b \<and> length b \<le> 500"
    using b(4) by (simp add: batch_size_def)
  moreover have "\<forall>b \<in> set (butlast batches). length b = 500"
    using b(5) by (simp add: batch_size_def)
  ultimately have 1: "\<exists>batches.
            trace (load_csv_data X p (Some df) w) =
              trace w @ [SessionOpen] @ map (\<lambda>b. Run (Import b)) batches @ [SessionClose] \<and>
            concat batches = map (make_row_data X) (df_rows (fillna0 df)) \<and>
            length batches = (length (df_rows df) + 499) div 500 \<and>
            (\<forall>b \<in> set batches. 0 < length b \<and> length b \<le> 500) \<and>
            (\<forall>b \<in> set (butlast batches). length b = 500)"
    using b(2) by blast
  have 2: "batch_size = 500" by (simp add: batch_size_def)
  have 3: "map_of (config_lines lines []) ''URI'' = Some uri \<and>
          map_of (config_lines lines []) ''USERNAME'' = Some user \<and>
          map_of (config_lines lines []) ''PASSWORD'' = Some password \<Longrightarrow>
            main X (Some lines) csv w' =
              print Success (close (load_csv_data X ''Airline_surveys_sample.csv'' csv
                (create_constraints X (clear_database X (builder_init uri user password w')))))"
    by (rule main_ok) simp_all
  from 1 2 3 show ?thesis by blast
qed

theorem load_batches_witness:
  "missing_cols example_big_df = [] \<and>
   map_of (config_lines example_config_batch []) ''URI'' = Some ''bolt://localhost:7687?db=a'' \<and>
   map_of (config_lines example_config_batch []) ''USERNAME'' = Some ''neo4j'' \<and>
   map_of (config_lines example_config_batch []) ''PASSWORD'' = Some ''secret'' \<and>
   (\<exists>batches.
      trace (load_csv_data example_ext ''f.csv'' (Some example_big_df) example_world) =
        [SessionOpen] @ map (\<lambda>b. Run (Import b)) batches @ [SessionClose] \<and>
      length batches = 3) \<and>
   main example_ext (Some example_config_batch) (Some example_big_df) example_world =
     print Success (close (load_csv_data example_ext ''Airline_surveys_sample.csv''
       (Some example_big_df)
       (create_constraints example_ext (clear_database example_ext
          (builder_init ''bolt://localhost:7687?db=a'' ''neo4j'' ''secret'' example_world)))))"
proof -
  have k: "map_of (config_lines example_config_batch []) ''URI'' = Some ''bolt://localhost:7687?db=a''"
    "map_of (config_lines example_config_batch []) ''USERNAME'' = Some ''neo4j''"
    "map_of (config_lines example_config_batch []) ''PASSWORD'' = Some ''secret''"
    by (simp_all add: example_config_batch_lines)
  note t = load_issues_one_transaction_per_batch_of_500
         [OF example_big_not_missing, of example_ext "''f.csv''" example_world
            example_config_batch "''bolt://localhost:7687?db=a''" "''neo4j''" "''secret''"
            "Some example_big_df" example_world]
  from t obtain batches where
    t1: "trace (load_csv_data example_ext ''f.csv'' (Some example_big_df) example_world) =
          trace example_world @ [SessionOpen] @ map (\<lambda>b. Run (Import b)) batches @ [SessionClose]"
    and l: "length batches = (length (df_rows example_big_df) + 499) div 500"
    by blast
  from l have "length batches = 3" by (simp add: example_big_df_def)
  moreover have "trace example_world = []" by (simp add: example_world_def)
  ultimately have 1: "\<exists>batches.
      trace (load_csv_data example_ext ''f.csv'' (Some example_big_df) example_world) =
        [SessionOpen] @ map (\<lambda>b. Run (Import b)) batches @ [SessionClose] \<and>
      length batches = 3"
    using t1 by auto
  from t k have 2:
    "main example_ext (Some example_config_batch) (Some example_big_df) example_world =
     print Success (close (load_csv_data example_ext ''Airline_surveys_sample.csv''
       (Some example_big_df)
       (create_constraints example_ext (clear_database example_ext
          (builder_init ''bolt://localhost:7687?db=a'' ''neo4j'' ''secret'' example_world)))))"
    by blast
  from example_big_not_missing k 1 2 show ?thesis by (intro conjI)
qed

text \<open>
  C8. If the configuration file is absent, both programs print that it was not found
  and end: the trace and the store are untouched, so no driver and no session is ever
  created. If the file is present, \<^verbatim>\<open>load_config\<close> returns the dictionary built
  from its lines: a line without \<^verbatim>\<open>=\<close> is ignored; a line with \<^verbatim>\<open>=\<close>, once
  stripped, is its key, one \<^verbatim>\<open>=\<close> and its value, where the key holds no \<^verbatim>\<open>=\<close>
  (the split is at the first one), and that pair is written into the dictionary. The
  final dictionary maps each key to the value of the last line with that key.
\<close>

theorem config_absent_aborts_and_lines_split_at_first_eq:
  "main X None csv w = w\<lparr>out := out w @ [ConfigNotFound ''config.txt'']\<rparr> \<and>
   run_validation X None answers w = Inr (w\<lparr>out := out w @ [ConfigNotFound ''config.txt'']\<rparr>) \<and>
   trace (main X None csv w) = trace w \<and> store (main X None csv w) = store w \<and>
   load_config path (Some lines) w = (Some (config_lines lines []), w) \<and>
   map_of (config_lines lines []) =
     map_of (rev (map (\<lambda>l. split_eq (strip l)) (filter (\<lambda>l. CHR ''='' \<in> set l) lines))) \<and>
   (CHR ''='' \<notin> set line \<longrightarrow> config_lines (line # rest) config = config_lines rest config) \<and>
   (CHR ''='' \<in> set line \<longrightarrow>
      (\<exists>key val. strip line = key @ ''='' @ val \<and> CHR ''='' \<notin> set key \<and>
         config_lines (line # rest) config = config_lines rest (AList.update key val config)))"
proof -
  have "CHR ''='' \<in> set line \<Longrightarrow>
      (\<exists>key val. strip line = key @ ''='' @ val \<and> CHR ''='' \<notin> set key \<and>
         config_lines (line # rest) config = config_lines rest (AList.update key val config))"
  proof -
    assume e: "CHR ''='' \<in> set line"
    obtain key val where kv: "split_eq (strip line) = (key, val)"
      by (cases "split_eq (strip line)") auto
    from split_eq_first[OF eq_in_strip[OF e]] kv
    have "strip line = key @ ''='' @ val \<and> CHR ''='' \<notin> set key" by simp
    moreover from e kv have
      "config_lines (line # rest) config = config_lines rest (AList.update key val config)"
      by simp
    ultimately show ?thesis by blast
  qed
  then show ?thesis
    by (simp add: main_absent run_validation_absent print_def load_config_def config_lines_map_of)
qed

theorem config_witness:
  "trace (main example_ext None (Some example_df) example_world) = [] \<and>
   run_validation example_ext None (\<lambda>q. []) example_world =
     Inr (example_world\<lparr>out := [ConfigNotFound ''config.txt'']\<rparr>) \<and>
   CHR ''='' \<notin> set (''# connection'' @ [CHR 0x0A]) \<and>
   config_lines [''# connection'' @ [CHR 0x0A]] [] = [] \<and>
   map_of (config_lines example_config []) ''URI'' = Some ''bolt://localhost:7687?db=a''"
proof -
  note t = config_absent_aborts_and_lines_split_at_first_eq
          [of example_ext "Some example_df" example_world "\<lambda>q. []" "''config.txt''" example_config
              "''# connection'' @ [CHR 0x0A]" "[]" "[]"]
  have o: "trace example_world = []" "out example_world = []" by (simp_all add: example_world_def)
  have n: "CHR ''='' \<notin> set (''# connection'' @ [CHR 0x0A])" by simp
  from t have 1: "trace (main example_ext None (Some example_df) example_world) = []"
    by (simp add: o)
  from t have 2: "run_validation example_ext None (\<lambda>q. []) example_world =
     Inr (example_world\<lparr>out := [ConfigNotFound ''config.txt'']\<rparr>)"
    by (simp add: o)
  from t n have 3: "config_lines [''# connection'' @ [CHR 0x0A]] [] = []"
    by simp
  from t have "map_of (config_lines example_config []) =
     map_of (rev (map (\<lambda>l. split_eq (strip l)) (filter (\<lambda>l. CHR ''='' \<in> set l) example_config)))"
    by blast
  then have 4: "map_of (config_lines example_config []) ''URI'' = Some ''bolt://localhost:7687?db=a''"
    by (simp add: example_config_def strip_def is_space_def split_eq_def)
  from 1 2 3 4 n show ?thesis by (intro conjI)
qed

text \<open>
  C10. When the CSV file does not exist, or required columns are missing,
  \<^verbatim>\<open>load_csv_data\<close> only prints (the file-not-found line, or the missing and the
  available columns) and returns. With a configuration that holds the three keys, the
  main program then closes the driver and its last printed line is the success line;
  no error line is printed.
\<close>

theorem load_failure_still_closes_and_reports_success:
  assumes "map_of (config_lines lines []) ''URI'' = Some uri"
      and "map_of (config_lines lines []) ''USERNAME'' = Some user"
      and "map_of (config_lines lines []) ''PASSWORD'' = Some password"
      and "case csv of None \<Rightarrow> True | Some df \<Rightarrow> missing_cols df \<noteq> []"
  shows "load_csv_data X p csv w' =
           w'\<lparr>out := out w' @ (case csv of None \<Rightarrow> [CsvNotFound p]
                 | Some df \<Rightarrow> [Reading p, MissingColumns (missing_cols df),
                                AvailableColumns (df_columns df)])\<rparr> \<and>
         out (main X (Some lines) csv w) =
           out w @ [ClearingDatabase, DatabaseCleared, CreatingConstraints] @
             (case csv of None \<Rightarrow> [CsvNotFound ''Airline_surveys_sample.csv'']
              | Some df \<Rightarrow> [Reading ''Airline_surveys_sample.csv'', MissingColumns (missing_cols df),
                             AvailableColumns (df_columns df)]) @ [Success] \<and>
         trace (main X (Some lines) csv w) =
           trace w @ [DriverCreate uri user password, SessionOpen, Run ClearAll, SessionClose,
              SessionOpen, Run (CreateConstraint ''passenger_id''),
              Run (CreateConstraint ''journey_id''), Run (CreateConstraint ''airport_id''),
              Run (CreateIndex ''flight_idx''), SessionClose, DriverClose]"
  unfolding main_ok[OF assms(1-3)] prepare_world load_csv_data_fails[OF assms(4)]
  by (simp add: close_def world_ops)

theorem load_failure_witness:
  "missing_cols example_df_missing \<noteq> [] \<and>
   out (main example_ext (Some example_config) (Some example_df_missing) example_world) =
     [ClearingDatabase, DatabaseCleared, CreatingConstraints,
      Reading ''Airline_surveys_sample.csv'', MissingColumns [''feedback_ID''],
      AvailableColumns (butlast required_cols), Success] \<and>
   out (main example_ext (Some example_config) None example_world) =
     [ClearingDatabase, DatabaseCleared, CreatingConstraints,
      CsvNotFound ''Airline_surveys_sample.csv'', Success] \<and>
   last (trace (main example_ext (Some example_config) None example_world)) = DriverClose"
proof -
  have m: "case Some example_df_missing of None \<Rightarrow> True | Some df \<Rightarrow> missing_cols df \<noteq> []"
    by (simp add: example_missing)
  have n: "case None :: dataframe option of None \<Rightarrow> True | Some df \<Rightarrow> missing_cols df \<noteq> []"
    by simp
  have o: "out example_world = []" "trace example_world = []"
    by (simp_all add: example_world_def)
  note a = load_failure_still_closes_and_reports_success
             [OF example_config_keys m, of example_ext "''f.csv''" example_world example_world]
  note b = load_failure_still_closes_and_reports_success
             [OF example_config_keys n, of example_ext "''f.csv''" example_world example_world]
  from a have 1: "out (main example_ext (Some example_config) (Some example_df_missing) example_world) =
     [ClearingDatabase, DatabaseCleared, CreatingConstraints,
      Reading ''Airline_surveys_sample.csv'', MissingColumns [''feedback_ID''],
      AvailableColumns (butlast required_cols), Success]"
    by (simp add: o example_missing example_missing_columns)
  from b have 2: "out (main example_ext (Some example_config) None example_world) =
     [ClearingDatabase, DatabaseCleared, CreatingConstraints,
      CsvNotFound ''Airline_surveys_sample.csv'', Success]"
    by (simp add: o)
  from b have 3: "last (trace (main example_ext (Some example_config) None example_world)) = DriverClose"
    by (simp add: o)
  from 1 2 3 show ?thesis by (simp add: example_missing)
qed

text \<open>
  C3, as stated, fails on the main program: when the header check finds a column
  missing, the wipe and the constraint declarations have already been executed. Here
  the frame lacks \<^verbatim>\<open>feedback_ID\<close>, the store held an Airport node before the run, and
  after the run the graph is empty, the trace holding the wipe.
\<close>

theorem missing_column_wipe_counterexample:
  "missing_cols example_df_missing = [''feedback_ID''] \<and>
   store example_world \<noteq> empty_graph \<and>
   store (main example_ext (Some example_config) (Some example_df_missing) example_world) = empty_graph \<and>
   Run ClearAll \<in> set (trace (main example_ext (Some example_config) (Some example_df_missing) example_world))"
proof -
  have m: "main example_ext (Some example_config) (Some example_df_missing) example_world =
     print Success (close (load_csv_data example_ext ''Airline_surveys_sample.csv'' (Some example_df_missing)
             (create_constraints example_ext (clear_database example_ext
                (builder_init ''bolt://localhost:7687?db=a'' ''neo4j'' ''secret'' example_world)))))"
    by (rule main_ok) (simp_all add: example_config_lines)
  have s: "store example_world \<noteq> empty_graph"
    by (simp add: example_world_def empty_graph_def)
  show ?thesis
    unfolding m prepare_world
    by (simp add: s example_missing load_csv_data_def Let_def close_def world_ops)
qed

text \<open>
  C3, amended. If the header lacks one or more of the required columns,
  \<^verbatim>\<open>load_csv_data\<close> prints the missing and the available columns and returns
  without opening a session or running any statement: store and trace are exactly as
  they were when it was called, so no row is imported and there is no partial graph. In
  the main program the store has by then been wiped and the constraints and the index
  declared: the graph after the run is empty, and the trace holds no import.
\<close>

theorem missing_column_load_issues_no_statement:
  assumes "missing_cols df \<noteq> []"
      and "map_of (config_lines lines []) ''URI'' = Some uri"
      and "map_of (config_lines lines []) ''USERNAME'' = Some user"
      and "map_of (config_lines lines []) ''PASSWORD'' = Some password"
  shows "store (load_csv_data X p (Some df) w') = store w' \<and>
         trace (load_csv_data X p (Some df) w') = trace w' \<and>
         out (load_csv_data X p (Some df) w') =
           out w' @ [Reading p, MissingColumns (missing_cols df), AvailableColumns (df_columns df)] \<and>
         store (main X (Some lines) (Some df) w) = empty_graph \<and>
         trace (main X (Some lines) (Some df) w) =
           trace w @ [DriverCreate uri user password, SessionOpen, Run ClearAll, SessionClose,
              SessionOpen, Run (CreateConstraint ''passenger_id''),
              Run (CreateConstraint ''journey_id''), Run (CreateConstraint ''airport_id''),
              Run (CreateIndex ''flight_idx''), SessionClose, DriverClose]"
proof -
  have f: "case Some df of None \<Rightarrow> True | Some df \<Rightarrow> missing_cols df \<noteq> []"
    using assms(1) by simp
  show ?thesis
    unfolding main_ok[OF assms(2-4)] prepare_world load_csv_data_fails[OF f]
    by (simp add: close_def world_ops)
qed

theorem missing_column_witness:
  "missing_cols example_df_missing \<noteq> [] \<and>
   store (load_csv_data example_ext ''f.csv'' (Some example_df_missing) example_world) =
     store example_world \<and>
   trace (load_csv_data example_ext ''f.csv'' (Some example_df_missing) example_world) = [] \<and>
   store (main example_ext (Some example_config) (Some example_df_missing) example_world) = empty_graph"
proof -
  have m: "missing_cols example_df_missing \<noteq> []" by (simp add: example_missing)
  have o: "trace example_world = []" by (simp add: example_world_def)
  from missing_column_load_issues_no_statement
         [OF m example_config_keys, of example_ext "''f.csv''" example_world example_world]
  show ?thesis using m o by simp
qed

text \<open>
  C9. Whenever the build runs (the configuration holds URI, USERNAME and PASSWORD), the
  first statement sent to the store is the wipe, before the constraints, the index and
  any import. The graph after the run is the import of the CSV rows into the empty
  graph (the empty graph when the load fails): it does not depend on what the store
  held before.
\<close>

theorem build_wipes_first_whatever_the_store_held:
  assumes "map_of (config_lines lines []) ''URI'' = Some uri"
      and "map_of (config_lines lines []) ''USERNAME'' = Some user"
      and "map_of (config_lines lines []) ''PASSWORD'' = Some password"
  shows "(\<exists>evs. trace (main X (Some lines) csv w) =
            trace w @ [DriverCreate uri user password, SessionOpen, Run ClearAll, SessionClose,
              SessionOpen, Run (CreateConstraint ''passenger_id''),
              Run (CreateConstraint ''journey_id''), Run (CreateConstraint ''airport_id''),
              Run (CreateIndex ''flight_idx''), SessionClose] @ evs @ [DriverClose]) \<and>
         store (main X (Some lines) csv w) =
           (case csv of None \<Rightarrow> empty_graph
            | Some df \<Rightarrow> if missing_cols df \<noteq> [] then empty_graph
                         else import_query X (map (make_row_data X) (df_rows (fillna0 df))) empty_graph) \<and>
         store (main X (Some lines) csv w) = store (main X (Some lines) csv w')"
proof -
  let ?pre = "\<lambda>w. create_constraints X (clear_database X (builder_init uri user password w))"
  obtain evs where
    "trace (load_csv_data X ''Airline_surveys_sample.csv'' csv (?pre w)) = trace (?pre w) @ evs"
    using load_csv_data_trace_extends by blast
  then have "trace (main X (Some lines) csv w) =
            trace w @ [DriverCreate uri user password, SessionOpen, Run ClearAll, SessionClose,
              SessionOpen, Run (CreateConstraint ''passenger_id''),
              Run (CreateConstraint ''journey_id''), Run (CreateConstraint ''airport_id''),
              Run (CreateIndex ''flight_idx''), SessionClose] @ evs @ [DriverClose]"
    unfolding main_ok[OF assms] by (simp add: prepare_world close_def world_ops)
  then have 1: "\<exists>evs. trace (main X (Some lines) csv w) =
            trace w @ [DriverCreate uri user password, SessionOpen, Run ClearAll, SessionClose,
              SessionOpen, Run (CreateConstraint ''passenger_id''),
              Run (CreateConstraint ''journey_id''), Run (CreateConstraint ''airport_id''),
              Run (CreateIndex ''flight_idx''), SessionClose] @ evs @ [DriverClose]"
    by (rule exI)
  have 2: "store (main X (Some lines) csv w) =
           (case csv of None \<Rightarrow> empty_graph
            | Some df \<Rightarrow> if missing_cols df \<noteq> [] then empty_graph
                         else import_query X (map (make_row_data X) (df_rows (fillna0 df))) empty_graph)"
    for w
    unfolding main_ok[OF assms]
    by (simp add: load_csv_data_store prepare_world close_def world_ops split: option.splits)
  have 3: "store (main X (Some lines) csv w) = store (main X (Some lines) csv w')"
    by (simp only: 2)
  from 1 2[of w] 3 show ?thesis by (intro conjI)
qed

theorem build_wipes_witness:
  "store (main example_ext (Some example_config) (Some example_df) example_world) =
   store (main example_ext (Some example_config) (Some example_df)
            (example_world\<lparr>store := empty_graph\<rparr>)) \<and>
   airport_nodes (store (main example_ext (Some example_config) (Some example_df) example_world)) =
     [''EWX'', ''IAX'', ''LAX'']"
proof -
  note t = build_wipes_first_whatever_the_store_held
             [OF example_config_keys, of example_ext "Some example_df" example_world
                "example_world\<lparr>store := empty_graph\<rparr>"]
  from t have 1:
    "store (main example_ext (Some example_config) (Some example_df) example_world) =
     store (main example_ext (Some example_config) (Some example_df)
            (example_world\<lparr>store := empty_graph\<rparr>))"
    by blast
  from t have
    "store (main example_ext (Some example_config) (Some example_df) example_world) =
       import_query example_ext
         (map (make_row_data example_ext) (df_rows (fillna0 example_df))) empty_graph"
    by (simp add: example_not_missing)
  then have 2:
    "airport_nodes (store (main example_ext (Some example_config) (Some example_df) example_world)) =
       [''EWX'', ''IAX'', ''LAX'']"
    by (simp only: example_import_airports)
  from 1 2 show ?thesis by blast
qed

text \<open>
  C2, as stated, fails at the boundary: \<^verbatim>\<open>math.isclose\<close> works in double precision,
  where the tolerance \<^verbatim>\<open>1e-9\<close>, the difference and the product are rounded. The two
  doubles below differ by 8500000, which is more than \<open>1 / 10 ^ 9\<close> times the larger
  one, yet the rounded product is 8500000 and the value is accepted.
\<close>

theorem isclose_rounding_counterexample:
  "round_to_double 8499999991499999 = 8499999991499999 \<and>
   round_to_double 8499999999999999 = 8499999999999999 \<and>
   is_float (PFloat 8499999999999999) \<and>
   field_ok (PFloat 8499999991499999) (PFloat 8499999999999999) \<and>
   \<not> \<bar>8499999991499999 - 8499999999999999 :: real\<bar>
       \<le> 1 / 10 ^ 9 * max \<bar>8499999991499999\<bar> \<bar>8499999999999999\<bar> \<and>
   out (snd (compare_results 5 [[(''v'', PFloat 8499999991499999)]]
                               [[(''v'', PFloat 8499999999999999)]] example_world)) =
     [Validating 5, Pass]"
proof -
  have 1: "field_ok (PFloat 8499999991499999) (PFloat 8499999999999999)"
    by (simp add: field_ok_float boundary_pair_close)
  have 2: "is_float (PFloat 8499999999999999)" by simp
  from boundary_pair_doubles 1 2 boundary_pair_exact boundary_report
  show ?thesis by (intro conjI)
qed

text \<open>
  C2, amended. When the expected value of a field is a float, the actual value is
  accepted exactly when it is a number (int or float, bool counting as int) and
  \<^verbatim>\<open>math.isclose\<close> holds as it is computed in double precision: the two values are
  equal, or the rounded difference is at most the rounded product of the double
  \<^verbatim>\<open>1e-9\<close> with one of them (an int is converted to the nearest double first, exactly
  when it is below \<open>2 ^ 53\<close> in magnitude); the loop over the fields of a row then goes
  on silently, and otherwise prints the mismatch. Each rounding is off by at most
  \<open>2 ^ - 53\<close> of the value plus \<open>2 ^ - 1075\<close>, so for values of magnitude at least
  \<open>2 ^ - 900\<close> every pair with \<open>\<bar>a - b\<bar> \<le> (1 - 2 ^ - 50) / 10 ^ 9 * max \<bar>a\<bar> \<bar>b\<bar>\<close> is
  accepted and every accepted pair has
  \<open>\<bar>a - b\<bar> \<le> (1 + 2 ^ - 50) / 10 ^ 9 * max \<bar>a\<bar> \<bar>b\<bar>\<close>. Expected 2.7911646586345387
  against actual 2.791164658634539 is accepted; two values of magnitude at most 3 that
  differ by 0.005 or more are rejected.
\<close>

theorem float_expected_uses_isclose_in_doubles:
  "(converts a \<longrightarrow>
      (field_ok a (PFloat e) \<longleftrightarrow> is_int_or_float a \<and> isclose (float_of a) e rel_tol_1e_9)) \<and>
   (isclose x y rel_tol_1e_9 \<longleftrightarrow>
      x = y \<or>
      \<bar>round_to_double (y - x)\<bar> \<le> \<bar>round_to_double (rel_tol_1e_9 * y)\<bar> \<or>
      \<bar>round_to_double (y - x)\<bar> \<le> \<bar>round_to_double (rel_tol_1e_9 * x)\<bar> \<or>
      round_to_double (y - x) = 0) \<and>
   rel_tol_1e_9 = 4835703278458517 / 2 ^ 82 \<and>
   \<bar>round_to_double v - v\<bar> \<le> \<bar>v\<bar> / 2 ^ 53 + 1 / 2 ^ 1075 \<and>
   (\<bar>i\<bar> < 2 ^ 53 \<longrightarrow> converts (PInt i) \<and> float_of (PInt i) = of_int i) \<and>
   (converts (dict_get act_row key) \<longrightarrow>
      fields_loop n act_row [(key, PFloat e)] True w =
        (if is_int_or_float (dict_get act_row key) \<and>
            isclose (float_of (dict_get act_row key)) e rel_tol_1e_9
         then (True, w)
         else (False, print (Mismatch n key (PFloat e) (dict_get act_row key)) w))) \<and>
   (1 / 2 ^ 900 \<le> max \<bar>x\<bar> \<bar>y\<bar> \<and> \<bar>x - y\<bar> \<le> (1 - 1 / 2 ^ 50) / 10 ^ 9 * max \<bar>x\<bar> \<bar>y\<bar>
      \<longrightarrow> field_ok (PFloat x) (PFloat y)) \<and>
   (1 / 2 ^ 900 \<le> max \<bar>x\<bar> \<bar>y\<bar> \<and> field_ok (PFloat x) (PFloat y)
      \<longrightarrow> \<bar>x - y\<bar> \<le> (1 + 1 / 2 ^ 50) / 10 ^ 9 * max \<bar>x\<bar> \<bar>y\<bar>) \<and>
   field_ok (PFloat (float_literal 2.791164658634539)) (PFloat (float_literal 2.7911646586345387)) \<and>
   (\<bar>x\<bar> \<le> 3 \<and> \<bar>y\<bar> \<le> 3 \<and> 1 / 200 \<le> \<bar>x - y\<bar> \<longrightarrow> \<not> field_ok (PFloat x) (PFloat y))"
proof -
  have 1: "converts a \<longrightarrow>
      (field_ok a (PFloat e) \<longleftrightarrow> is_int_or_float a \<and> isclose (float_of a) e rel_tol_1e_9)"
    using field_ok_float[of a e] by blast
  have 6: "converts (dict_get act_row key) \<longrightarrow>
      fields_loop n act_row [(key, PFloat e)] True w =
        (if is_int_or_float (dict_get act_row key) \<and>
            isclose (float_of (dict_get act_row key)) e rel_tol_1e_9
         then (True, w)
         else (False, print (Mismatch n key (PFloat e) (dict_get act_row key)) w))"
    using fields_loop_float[of n act_row key e w] by blast
  have 10: "\<bar>x\<bar> \<le> 3 \<and> \<bar>y\<bar> \<le> 3 \<and> 1 / 200 \<le> \<bar>x - y\<bar> \<longrightarrow> \<not> field_ok (PFloat x) (PFloat y)"
    using far_apart[of x y] by blast
  note 2 = isclose_unfold[of x y] and 3 = rel_tol_value and 4 = round_to_double_error[of v]
  show ?thesis
    apply (rule conjI, rule 1)
    apply (rule conjI, rule 2)
    apply (rule conjI, rule 3)
    apply (rule conjI, rule 4)
    apply (rule conjI, rule small_int_converts)
    apply (rule conjI, rule 6)
    apply (rule conjI, rule close_enough_accepted)
    apply (rule conjI, rule accepted_is_close)
    apply (rule conjI, rule example_pair_accepted)
    apply (rule 10)
    done
qed

theorem float_isclose_witness:
  "\<bar>float_literal 2.80\<bar> \<le> 3 \<and> \<bar>float_literal 2.79\<bar> \<le> 3 \<and>
   1 / 200 \<le> \<bar>float_literal 2.80 - float_literal 2.79\<bar> \<and>
   \<not> field_ok (PFloat (float_literal 2.80)) (PFloat (float_literal 2.79)) \<and>
   1 / 2 ^ 900 \<le> max \<bar>1000000000 :: real\<bar> \<bar>1000000000.5\<bar> \<and>
   \<bar>1000000000 - 1000000000.5 :: real\<bar>
     \<le> (1 - 1 / 2 ^ 50) / 10 ^ 9 * max \<bar>1000000000\<bar> \<bar>1000000000.5\<bar> \<and>
   field_ok (PFloat 1000000000) (PFloat 1000000000.5) \<and>
   \<bar>- 99 :: int\<bar> < 2 ^ 53 \<and> converts (PInt (- 99)) \<and>
   field_ok (PInt (- 99)) (PFloat (- 99)) \<and>
   out (snd (compare_results 3 example_actual3 example_expected3 example_world)) =
     [Validating 3, Pass]"
proof -
  note t = float_expected_uses_isclose_in_doubles
  have hA: "\<bar>float_literal 2.80\<bar> \<le> 3" "\<bar>float_literal 2.79\<bar> \<le> 3"
    "1 / 200 \<le> \<bar>float_literal 2.80 - float_literal 2.79\<bar>"
    unfolding literal_values by simp_all
  from t[where x = "float_literal 2.80" and y = "float_literal 2.79"] hA
  have A: "\<not> field_ok (PFloat (float_literal 2.80)) (PFloat (float_literal 2.79))" by blast
  have hB: "1 / 2 ^ 900 \<le> max \<bar>1000000000 :: real\<bar> \<bar>1000000000.5\<bar>"
    "\<bar>1000000000 - 1000000000.5 :: real\<bar>
       \<le> (1 - 1 / 2 ^ 50) / 10 ^ 9 * max \<bar>1000000000\<bar> \<bar>1000000000.5\<bar>"
    by simp_all
  from t[where x = "1000000000" and y = "1000000000.5"] hB
  have B: "field_ok (PFloat 1000000000) (PFloat 1000000000.5)" by blast
  have hC: "\<bar>- 99 :: int\<bar> < 2 ^ 53" by simp
  note tC = t[where a = "PInt (- 99)" and e = "- 99" and i = "- 99"]
  from tC hC have C1: "converts (PInt (- 99))" and C2: "float_of (PInt (- 99)) = - 99"
    by simp_all
  from tC C1 have "field_ok (PInt (- 99)) (PFloat (- 99)) \<longleftrightarrow>
      is_int_or_float (PInt (- 99)) \<and> isclose (float_of (PInt (- 99))) (- 99) rel_tol_1e_9"
    by blast
  then have C: "field_ok (PInt (- 99)) (PFloat (- 99))"
    by (simp only: C2) (simp add: isclose_def)
  from t have f: "field_ok (PFloat (float_literal 2.791164658634539))
                    (PFloat (float_literal 2.7911646586345387))" by blast
  have E: "out (snd (compare_results 3 example_actual3 example_expected3 example_world)) =
     [Validating 3, Pass]"
    using f
    by (simp add: compare_results_eq all_reports_def all_rows_match_def row_report_def
        row_matches_def example_actual3_def example_expected3_def example_world_def
        dict_get_def enumerate_eq_zip field_ok_other)
  from hA A hB B hC C1 C E show ?thesis by (intro conjI)
qed




text \<open>
  C5, as stated, fails: the comparison is Python's \<^verbatim>\<open>!=\<close>, under which numbers of
  different types are equal when their values are. Expected integer 42 against actual
  float 42.0, and expected integer 1 against actual \<^verbatim>\<open>True\<close>, are accepted.
\<close>

theorem int_float_equal_counterexample:
  "\<not> is_float (PInt 42) \<and> py_type (PFloat 42) \<noteq> py_type (PInt 42) \<and>
   field_ok (PFloat 42) (PInt 42) \<and>
   out (snd (compare_results 2 [[(''flight_id'', PFloat 42), (''feedback_count'', PBool True)]]
                               [[(''flight_id'', PInt 42), (''feedback_count'', PInt 1)]] example_world)) =
     [Validating 2, Pass]"
  by (simp add: compare_results_eq all_reports_def all_rows_match_def row_report_def
        row_matches_def example_world_def dict_get_def field_ok_def enumerate_eq_zip)

text \<open>
  C5, amended. When the expected value is not a float, a field is accepted exactly when
  the actual value equals it under Python's equality. For an actual value of a different
  type this holds only if both are numbers (bool, int, float) of the same numeric value;
  in particular a string or \<^verbatim>\<open>None\<close> against a value of another type is always a
  mismatch (the string "42" against the integer 42).
\<close>

theorem non_float_expected_uses_python_equality:
  assumes "\<not> is_float e"
  shows "(field_ok a e \<longleftrightarrow> py_eq a e) \<and>
         (py_type a \<noteq> py_type e \<longrightarrow>
            (field_ok a e \<longleftrightarrow> is_int_or_float a \<and> is_int_or_float e \<and> num_of a = num_of e)) \<and>
         (py_type a \<noteq> py_type e \<and> (py_type a \<in> {NoneType, StrType} \<or> py_type e \<in> {NoneType, StrType})
            \<longrightarrow> \<not> field_ok a e)"
proof -
  have 1: "field_ok a e \<longleftrightarrow> py_eq a e" using assms by (rule field_ok_other)
  have 2: "py_type a \<noteq> py_type e \<Longrightarrow>
             py_eq a e \<longleftrightarrow> is_int_or_float a \<and> is_int_or_float e \<and> num_of a = num_of e"
    by (cases a; cases e) simp_all
  have 3: "py_type a \<noteq> py_type e \<Longrightarrow> py_type a \<in> {NoneType, StrType} \<or> py_type e \<in> {NoneType, StrType}
             \<Longrightarrow> \<not> py_eq a e"
    by (cases a; cases e) simp_all
  from 1 2 3 show ?thesis by blast
qed

theorem python_equality_witness:
  "\<not> is_float (PInt 42) \<and> py_type (PStr ''42'') \<noteq> py_type (PInt 42) \<and>
   \<not> field_ok (PStr ''42'') (PInt 42) \<and> field_ok (PFloat 42) (PInt 42) \<and> field_ok (PInt 42) (PInt 42)"
proof -
  have h: "\<not> is_float (PInt 42)" by simp
  note t = non_float_expected_uses_python_equality[OF h]
  from t[of "PStr ''42''"] have 1: "\<not> field_ok (PStr ''42'') (PInt 42)" by simp
  from t[of "PFloat 42"] have 2: "field_ok (PFloat 42) (PInt 42)" by simp
  from t[of "PInt 42"] have 3: "field_ok (PInt 42) (PInt 42)" by simp
  from h 1 2 3 show ?thesis by simp
qed




end
